theory Spec2Isabelle
  imports Main "HOL-Library.Sublist" "HOL-Library.Char_ord" "HOL-Library.List_Lexorder"
begin

section \<open>Data model of \<open>main.go\<close>\<close>

text \<open>
  Go strings are byte sequences and are modelled as \<open>string\<close> (a list of 8-bit
  characters). Go's \<open>int\<close> fields (pull request numbers, HTTP status codes) are only
  decoded, compared and printed, never computed with, so they are modelled as
  \<open>int\<close>. A Go slice is a list; the \<open>nil\<close> slice and the empty slice are both
  \<open>[]\<close> (the program only ranges over slices and takes their length). A Go
  \<open>error\<close> is \<open>string option\<close>: \<open>None\<close> is \<open>nil\<close>, \<open>Some m\<close> an error with
  message \<open>m\<close>.
\<close>

type_synonym error = "string option"

text \<open>\<open>time.Time\<close>, as nanoseconds since the Unix epoch (UTC).\<close>

type_synonym time = int

record Config =
  GithubToken :: string
  Owner :: string
  Repo :: string
  TrunkBranch :: string
  TargetBranch :: string
  RequiredLabels :: "string list"
  GitHubOutput :: string

record MergeRecord =
  PR :: int
  Commit :: string
  Timestamp :: time

record RefHistory =
  Merges :: "MergeRecord list"

text \<open>The anonymous struct \<open>Base\<close> of \<open>GitHubPR\<close> has the single field \<open>Ref\<close>.\<close>

record GitHubPR =
  Number :: int
  Title :: string
  State :: string
  CreatedAt :: string
  BaseRef :: string
  Labels :: "string list"

definition refHistoryFile :: string where
  "refHistoryFile = ''.ref-history''"

definition githubAPI :: string where
  "githubAPI = ''https://api.github.com''"

definition userAgent :: string where
  "userAgent = ''GitHubMergeBot/1.0''"

section \<open>Functions of Go's standard library that the program calls\<close>

text \<open>
  \<open>strings.ToLower\<close>, \<open>strings.TrimSpace\<close> and \<open>json.MarshalIndent\<close> work on
  Unicode text with tables that are not part of this repository. They are taken as
  parameters (fields of \<open>env\<close> below), so that what is proved of the program holds for
  the functions Go has. Where an example needs a value of \<open>strings.ToLower\<close>, it
  assumes what Go documents for text of ASCII bytes only: \<open>A..Z\<close> become \<open>a..z\<close>
  and every other byte stays (\<open>asciiLower\<close>).
\<close>

definition lowerByte :: "char \<Rightarrow> char" where
  "lowerByte c =
     (if (65::nat) \<le> of_char c \<and> of_char c \<le> (90::nat)
      then char_of (of_char c + (32::nat)) else c)"

definition asciiLower :: "string \<Rightarrow> string" where
  "asciiLower s = map lowerByte s"

definition isASCII :: "string \<Rightarrow> bool" where
  "isASCII s = list_all (\<lambda>c. (of_char c :: nat) < 128) s"

text \<open>
  \<open>strings.Split(s, sep)\<close> for a separator of one byte: the pieces of \<open>s\<close> between
  the occurrences of \<open>sep\<close>, empty pieces included; \<open>cur\<close> is the piece being read.
\<close>

fun splitFrom :: "char \<Rightarrow> string \<Rightarrow> string \<Rightarrow> string list" where
  "splitFrom sep cur [] = [cur]"
| "splitFrom sep cur (c # cs) =
     (if c = sep then cur # splitFrom sep [] cs else splitFrom sep (cur @ [c]) cs)"

definition Split :: "string \<Rightarrow> char \<Rightarrow> string list" where
  "Split s sep = splitFrom sep [] s"

text \<open>\<open>strings.Join(parts, sep)\<close> for a separator of one byte.\<close>

fun Join :: "string list \<Rightarrow> char \<Rightarrow> string" where
  "Join [] sep = []"
| "Join [p] sep = p"
| "Join (p # q # ps) sep = p @ sep # Join (q # ps) sep"

text \<open>The verb \<open>%d\<close> of \<open>fmt\<close>: an integer in decimal, with \<open>-\<close> when negative.\<close>

function showNat :: "nat \<Rightarrow> string" where
  "showNat n =
     (if n < 10 then [char_of (48 + n)]
      else showNat (n div 10) @ [char_of (48 + n mod 10)])"
  by pat_completeness auto
termination
  by (relation "measure id") auto

definition showInt :: "int \<Rightarrow> string" where
  "showInt i = (if i < 0 then CHR ''-'' # showNat (nat (- i)) else showNat (nat i))"

definition quote :: char where
  "quote = CHR 0x27"

definition newline :: char where
  "newline = CHR 0x0A"

section \<open>The world outside the process\<close>

text \<open>
  The program acts on the world through git processes, one HTTP request, two files and
  the log. A \<open>world\<close> holds what the program has done so far (\<open>trace\<close>, oldest event
  first) and the files, each under the path text by which the program names it. What
  the world answers is not the program's to decide:
  an \<open>env\<close> gives, for the world as it stands and the operation attempted, the
  result. Every theorem below that is stated for an arbitrary \<open>env\<close> therefore holds
  whichever operations fail.
\<close>

text \<open>
  What the program hands to \<open>net/http\<close>: the URL text it passes to
  \<open>http.NewRequest\<close> and the headers it sets. This is the program's text, not the bytes
  on the wire: how the library parses and escapes the text, and so what is sent, is the
  library's and the network's business and is part of the answer \<open>httpDo\<close> gives.
\<close>

record request =
  urlText :: string
  headers :: "(string \<times> string) list"

text \<open>
  The events of a trace: a git process run with its arguments and whether it exited
  with status 0; \<open>client.Do\<close> called for a request; a file written whole, with its
  new content; a line appended to a file; a line written by the \<open>log\<close> package.
\<close>

datatype event =
    Git "string list" bool
  | Get request
  | Wrote string string
  | Appended string string
  | Logged string

record world =
  trace :: "event list"
  files :: "string \<rightharpoonup> string"

text \<open>
  The result of a process: exit status 0 with its output, or an error (the text of
  Go's \<open>err\<close>) with the output captured until then.
\<close>

datatype cmd_result = CmdOk string | CmdErr string string

text \<open>An error of a file operation, with the content it leaves in the file.\<close>

datatype io_error = IoError string "string option"

text \<open>A pull request as the API's JSON gives it (the anonymous struct \<open>rawPRs\<close>).\<close>

record rawPR =
  rawNumber :: int
  rawTitle :: string
  rawState :: string
  rawCreatedAt :: string
  rawBaseRef :: string
  rawLabels :: "string list"

text \<open>
  The outcome of the HTTP request: \<open>http.NewRequest\<close> fails, \<open>client.Do\<close> fails, or
  a response arrives with its status code and the result of decoding its body.
\<close>

datatype http_result =
    NewRequestErr string
  | DoErr string
  | Response int "string + rawPR list"

record env =
  gitExec :: "world \<Rightarrow> string list \<Rightarrow> cmd_result"
  httpDo :: "world \<Rightarrow> request \<Rightarrow> http_result"
  now :: "world \<Rightarrow> time"
  writeFileErr :: "world \<Rightarrow> string \<Rightarrow> string \<Rightarrow> io_error option"
  openFileErr :: "world \<Rightarrow> string \<Rightarrow> string option"
  fprintfErr :: "world \<Rightarrow> string \<Rightarrow> string \<Rightarrow> io_error option"
  marshalIndent :: "RefHistory \<Rightarrow> string + string"
  ToLower :: "string \<Rightarrow> string"
  TrimSpace :: "string \<Rightarrow> string"
  rangeOrder :: "world \<Rightarrow> (string \<times> string) list \<Rightarrow> (string \<times> string) list"

text \<open>
  \<open>marshalIndent\<close> is \<open>json.MarshalIndent(history, "", "  ")\<close> of Go's standard
  library (\<open>Inl\<close> its error), \<open>ToLower\<close> and \<open>TrimSpace\<close> are \<open>strings.ToLower\<close>
  and \<open>strings.TrimSpace\<close>; \<open>rangeOrder\<close> is the order in which \<open>range\<close> visits the
  entries of a Go map, which the runtime chooses.
\<close>

definition record_event :: "event \<Rightarrow> world \<Rightarrow> world" where
  "record_event e w = w\<lparr>trace := trace w @ [e]\<rparr>"

text \<open>
  The git processes of a trace with their outcomes, the \<open>git fetch\<close> commands among
  them, the files written whole and the lines appended to files, each in the order of
  the trace.
\<close>

fun gitRuns :: "event list \<Rightarrow> (string list \<times> bool) list" where
  "gitRuns [] = []"
| "gitRuns (Git args ok # es) = (args, ok) # gitRuns es"
| "gitRuns (e # es) = gitRuns es"

fun fetches :: "event list \<Rightarrow> string list list" where
  "fetches [] = []"
| "fetches (Git args ok # es) =
     (if take 1 args = [''fetch''] then args # fetches es else fetches es)"
| "fetches (e # es) = fetches es"


fun appended :: "event list \<Rightarrow> (string \<times> string) list" where
  "appended [] = []"
| "appended (Appended path line # es) = (path, line) # appended es"
| "appended (e # es) = appended es"

section \<open>Label parsing and the label filter\<close>

text \<open>\<open>parseLabels\<close> (main.go, lines 119 to 125).\<close>

definition parseLabels :: "string \<Rightarrow> string list" where
  "parseLabels input = (if input = [] then [] else Split input CHR '','')"

text \<open>
  \<open>hasAnyLabel\<close> (lines 236 to 252). \<open>prLabelSet\<close> is the Go map
  \<open>map[string]struct{}\<close> filled by the first loop; the second loop returns at the
  first required label found in it. Both loops lower with \<open>strings.ToLower\<close>, the
  \<open>ToLower\<close> of \<open>env\<close>.
\<close>

definition addLabel :: "env \<Rightarrow> (string \<rightharpoonup> unit) \<Rightarrow> string \<Rightarrow> (string \<rightharpoonup> unit)" where
  "addLabel env prLabelSet l = prLabelSet(ToLower env l \<mapsto> ())"

fun anyRequired :: "env \<Rightarrow> (string \<rightharpoonup> unit) \<Rightarrow> string list \<Rightarrow> bool" where
  "anyRequired env prLabelSet [] = False"
| "anyRequired env prLabelSet (req # rest) =
     (if prLabelSet (ToLower env req) \<noteq> None then True else anyRequired env prLabelSet rest)"

definition hasAnyLabel :: "env \<Rightarrow> string list \<Rightarrow> string list \<Rightarrow> bool" where
  "hasAnyLabel env prLabels required =
     (if length required = 0 then True
      else anyRequired env (foldl (addLabel env) Map.empty prLabels) required)"

text \<open>
  \<open>filterPRs\<close> (lines 225 to 233): the loop appends each pull request that passes
  \<open>hasAnyLabel\<close> to \<open>filtered\<close>.
\<close>

definition filterPRs :: "env \<Rightarrow> GitHubPR list \<Rightarrow> string list \<Rightarrow> GitHubPR list" where
  "filterPRs env prs requiredLabels =
     foldl (\<lambda>filtered pr.
              if hasAnyLabel env (Labels pr) requiredLabels then filtered @ [pr] else filtered)
       [] prs"

section \<open>Running git\<close>

text \<open>\<open>runGitCommand\<close> (lines 277 to 284).\<close>

definition runGitCommand :: "env \<Rightarrow> string list \<Rightarrow> world \<Rightarrow> error \<times> world" where
  "runGitCommand env args w =
     (case gitExec env w args of
        CmdErr err output \<Rightarrow>
          (Some (quote # ''git '' @ Join args CHR '' '' @ quote # '' failed: '' @ err
                 @ newline # output),
           record_event (Git args False) w)
      | CmdOk output \<Rightarrow> (None, record_event (Git args True) w))"

text \<open>\<open>getLatestCommitSHA\<close> (lines 358 to 366).\<close>

definition getLatestCommitSHA :: "env \<Rightarrow> world \<Rightarrow> string \<times> world" where
  "getLatestCommitSHA env w =
     (case gitExec env w [''rev-parse'', ''HEAD''] of
        CmdErr err output \<Rightarrow> (''unknown'', record_event (Git [''rev-parse'', ''HEAD''] False) w)
      | CmdOk output \<Rightarrow>
          (TrimSpace env output, record_event (Git [''rev-parse'', ''HEAD''] True) w))"

text \<open>
  \<open>createMergeRecord\<close> (lines 350 to 356): the fields are evaluated in the order
  written, the commit before the clock.
\<close>

definition createMergeRecord :: "env \<Rightarrow> GitHubPR \<Rightarrow> world \<Rightarrow> MergeRecord \<times> world" where
  "createMergeRecord env pr w =
     (case getLatestCommitSHA env w of
        (sha, w1) \<Rightarrow> (\<lparr>PR = Number pr, Commit = sha, Timestamp = now env w1\<rparr>, w1))"

section \<open>The integration engine\<close>

text \<open>The three git commands of \<open>processSinglePR\<close>.\<close>

definition prBranch :: "GitHubPR \<Rightarrow> string" where
  "prBranch pr = ''pr-'' @ showInt (Number pr)"

definition fetchArgs :: "GitHubPR \<Rightarrow> string list" where
  "fetchArgs pr =
     [''fetch'', ''origin'', ''pull/'' @ showInt (Number pr) @ ''/head:'' @ prBranch pr]"

definition squashArgs :: "GitHubPR \<Rightarrow> string list" where
  "squashArgs pr = [''merge'', ''--squash'', prBranch pr]"

definition commitArgs :: "GitHubPR \<Rightarrow> string list" where
  "commitArgs pr = [''commit'', ''-m'', Title pr]"

text \<open>\<open>processSinglePR\<close> (lines 300 to 317).\<close>

definition processSinglePR :: "env \<Rightarrow> GitHubPR \<Rightarrow> world \<Rightarrow> error \<times> world" where
  "processSinglePR env pr w =
     (case runGitCommand env (fetchArgs pr) w of
        (Some err, w1) \<Rightarrow>
          (Some (''fetch PR branch '' @ quote # prBranch pr @ quote # '' failed: '' @ err), w1)
      | (None, w1) \<Rightarrow>
          (case runGitCommand env (squashArgs pr) w1 of
             (Some err, w2) \<Rightarrow> (Some (''squash merge failed: '' @ err), w2)
           | (None, w2) \<Rightarrow>
               (case runGitCommand env (commitArgs pr) w2 of
                  (Some err, w3) \<Rightarrow> (Some (''create commit failed: '' @ err), w3)
                | (None, w3) \<Rightarrow> (None, w3))))"

text \<open>
  \<open>processPRs\<close> (lines 287 to 297). The loop carries \<open>mergedPRs\<close> and the world; a
  failed pull request is logged and the loop continues with the next one.
\<close>

fun processPRsLoop ::
  "env \<Rightarrow> GitHubPR list \<Rightarrow> MergeRecord list \<Rightarrow> world \<Rightarrow> MergeRecord list \<times> world" where
  "processPRsLoop env [] mergedPRs w = (mergedPRs, w)"
| "processPRsLoop env (pr # rest) mergedPRs w =
     (case processSinglePR env pr w of
        (Some err, w1) \<Rightarrow>
          processPRsLoop env rest mergedPRs
            (record_event (Logged (''PR #'' @ showInt (Number pr) @ '' failed: '' @ err)) w1)
      | (None, w1) \<Rightarrow>
          (case createMergeRecord env pr w1 of
             (rec, w2) \<Rightarrow> processPRsLoop env rest (mergedPRs @ [rec]) w2))"

definition processPRs :: "env \<Rightarrow> GitHubPR list \<Rightarrow> world \<Rightarrow> MergeRecord list \<times> world" where
  "processPRs env prs w = processPRsLoop env prs [] w"

section \<open>Configuration\<close>

text \<open>
  The command line after \<open>flag.Parse\<close>: for each flag, the value given or \<open>None\<close>
  when the flag is absent (then \<open>flag.StringVar\<close> leaves its default).
\<close>

record flags =
  flag_github_token :: "string option"
  flag_owner :: "string option"
  flag_repo :: "string option"
  flag_trunk_branch :: "string option"
  flag_target_branch :: "string option"
  flag_labels :: "string option"
  flag_github_output :: "string option"

definition StringVar :: "string option \<Rightarrow> string \<Rightarrow> string" where
  "StringVar given dflt = (case given of None \<Rightarrow> dflt | Some v \<Rightarrow> v)"

text \<open>\<open>parseConfig\<close> (lines 80 to 117); \<open>Inl\<close> is the error returned.\<close>

definition parseConfig :: "flags \<Rightarrow> string + Config" where
  "parseConfig fl =
     (let token = StringVar (flag_github_token fl) [];
          owner = StringVar (flag_owner fl) [];
          repo = StringVar (flag_repo fl) [];
          trunk = StringVar (flag_trunk_branch fl) ''main'';
          target = StringVar (flag_target_branch fl) [];
          labels = StringVar (flag_labels fl) [];
          out = StringVar (flag_github_output fl) []
      in if token = [] then Inl (''missing required parameter: '' @ quote # ''github_token'' @ [quote])
         else if owner = [] then Inl (''missing required parameter: '' @ quote # ''owner'' @ [quote])
         else if repo = [] then Inl (''missing required parameter: '' @ quote # ''repo'' @ [quote])
         else if out = [] then
           Inl (''missing required parameter: '' @ quote # ''github_output'' @ [quote])
         else Inr \<lparr>GithubToken = token, Owner = owner, Repo = repo, TrunkBranch = trunk,
                   TargetBranch = (if target = [] then ''pre-'' @ trunk else target),
                   RequiredLabels = parseLabels labels, GitHubOutput = out\<rparr>)"

section \<open>Global git setup\<close>

text \<open>
  \<open>setupGitConfig\<close> (lines 135 to 149): the loop over the map \<open>configs\<close> stops at the
  first command that fails.
\<close>

definition configs :: "(string \<times> string) list" where
  "configs =
     [(''safe.directory'', ''/github/workspace''),
      (''user.name'', ''github-actions[bot]''),
      (''user.email'', ''41898282+github-actions[bot]@users.noreply.github.com''),
      (''advice.addIgnoredFile'', ''false'')]"

fun setupLoop :: "env \<Rightarrow> (string \<times> string) list \<Rightarrow> world \<Rightarrow> error \<times> world" where
  "setupLoop env [] w = (None, w)"
| "setupLoop env ((key, val) # rest) w =
     (case runGitCommand env [''config'', ''--global'', key, val] w of
        (Some err, w1) \<Rightarrow> (Some (''git config error: '' @ err), w1)
      | (None, w1) \<Rightarrow> setupLoop env rest w1)"

definition setupGitConfig :: "env \<Rightarrow> world \<Rightarrow> error \<times> world" where
  "setupGitConfig env w = setupLoop env (rangeOrder env w configs) w"

section \<open>The pull request query\<close>

definition convertPR :: "rawPR \<Rightarrow> GitHubPR" where
  "convertPR raw =
     \<lparr>Number = rawNumber raw, Title = rawTitle raw, State = rawState raw,
      CreatedAt = rawCreatedAt raw, BaseRef = rawBaseRef raw, Labels = rawLabels raw\<rparr>"

text \<open>
  The URL text \<open>fmt.Sprintf\<close> builds (lines 162 and 163) and the three headers set
  on the request (lines 171 to 173).
\<close>

definition prRequest :: "Config \<Rightarrow> request" where
  "prRequest cfg =
     \<lparr>urlText = githubAPI @ ''/repos/'' @ Owner cfg @ ''/'' @ Repo cfg @ ''/pulls?state=open&base=''
             @ TrunkBranch cfg @ ''&sort=created&direction=asc'',
      headers = [(''Authorization'', ''token '' @ GithubToken cfg),
                 (''Accept'', ''application/vnd.github.v3+json''),
                 (''User-Agent'', userAgent)]\<rparr>"

text \<open>
  \<open>fetchQualifiedPRs\<close> (lines 161 to 222). The decoded pull requests are converted in
  the order of the response and filtered; the function does not reorder them.
\<close>

definition fetchQualifiedPRs :: "env \<Rightarrow> Config \<Rightarrow> world \<Rightarrow> (string + GitHubPR list) \<times> world" where
  "fetchQualifiedPRs env cfg w =
     (case httpDo env w (prRequest cfg) of
        NewRequestErr err \<Rightarrow> (Inl (''request creation failed: '' @ err), w)
      | DoErr err \<Rightarrow> (Inl (''request API failed: '' @ err), record_event (Get (prRequest cfg)) w)
      | Response status body \<Rightarrow>
          (if status \<noteq> 200
           then (Inl (''response API status '' @ showInt status),
                 record_event (Get (prRequest cfg)) w)
           else (case body of
                   Inl err \<Rightarrow>
                     (Inl (''response API decoding failed: '' @ err),
                      record_event (Get (prRequest cfg)) w)
                 | Inr rawPRs \<Rightarrow>
                     (Inr (filterPRs env (map convertPR rawPRs) (RequiredLabels cfg)),
                      record_event (Get (prRequest cfg)) w))))"

section \<open>The branch resetter\<close>

text \<open>\<open>branchExists\<close> (lines 272 to 274).\<close>

definition branchExists :: "env \<Rightarrow> string \<Rightarrow> world \<Rightarrow> bool \<times> world" where
  "branchExists env branch w =
     (case runGitCommand env [''show-ref'', ''--verify'', ''refs/heads/'' @ branch] w of
        (err, w1) \<Rightarrow> (err = None, w1))"

text \<open>
  \<open>prepareTargetBranch\<close> (lines 255 to 269): \<open>Some m\<close> is the message of the
  \<open>log.Fatalf\<close> that ends the process.
\<close>

definition createTargetBranch :: "env \<Rightarrow> Config \<Rightarrow> world \<Rightarrow> string option \<times> world" where
  "createTargetBranch env cfg w =
     (case runGitCommand env [''checkout'', ''-B'', TargetBranch cfg] w of
        (Some err, w1) \<Rightarrow> (Some (''create target branch failed: '' @ err), w1)
      | (None, w1) \<Rightarrow> (None, w1))"

definition prepareTargetBranch :: "env \<Rightarrow> Config \<Rightarrow> world \<Rightarrow> string option \<times> world" where
  "prepareTargetBranch env cfg w =
     (case runGitCommand env [''checkout'', TrunkBranch cfg] w of
        (Some err, w1) \<Rightarrow> (Some (''checkout to trunk branch failed: '' @ err), w1)
      | (None, w1) \<Rightarrow>
          (case branchExists env (TargetBranch cfg) w1 of
             (True, w2) \<Rightarrow>
               (case runGitCommand env [''branch'', ''-D'', TargetBranch cfg] w2 of
                  (Some err, w3) \<Rightarrow> (Some (''delete target branch failed: '' @ err), w3)
                | (None, w3) \<Rightarrow> createTargetBranch env cfg w3)
           | (False, w2) \<Rightarrow> createTargetBranch env cfg w2))"

section \<open>The history recorder and the publisher\<close>

text \<open>\<open>os.WriteFile\<close>: on success the file holds exactly \<open>data\<close>.\<close>

definition WriteFile :: "env \<Rightarrow> string \<Rightarrow> string \<Rightarrow> world \<Rightarrow> error \<times> world" where
  "WriteFile env path data w =
     (case writeFileErr env w path data of
        Some (IoError err left) \<Rightarrow> (Some err, w\<lparr>files := (files w)(path := left)\<rparr>)
      | None \<Rightarrow> (None, record_event (Wrote path data) (w\<lparr>files := (files w)(path \<mapsto> data)\<rparr>)))"

text \<open>\<open>updateRefHistory\<close> (lines 327 to 342).\<close>

definition updateRefHistory :: "env \<Rightarrow> MergeRecord list \<Rightarrow> world \<Rightarrow> error \<times> world" where
  "updateRefHistory env merges w =
     (case marshalIndent env \<lparr>Merges = merges\<rparr> of
        Inl err \<Rightarrow> (Some (''history serialization failed: '' @ err), w)
      | Inr data \<Rightarrow>
          (case WriteFile env refHistoryFile data w of
             (Some err, w1) \<Rightarrow> (Some (''file write failed: '' @ err), w1)
           | (None, w1) \<Rightarrow>
               (case runGitCommand env [''add'', refHistoryFile] w1 of
                  (Some err, w2) \<Rightarrow> (Some err, w2)
                | (None, w2) \<Rightarrow>
                    runGitCommand env [''commit'', ''-m'', ''chore: update ref-history''] w2)))"

text \<open>\<open>pushChanges\<close> (lines 345 to 347).\<close>

definition pushChanges :: "env \<Rightarrow> Config \<Rightarrow> world \<Rightarrow> error \<times> world" where
  "pushChanges env cfg w = runGitCommand env [''push'', ''origin'', TargetBranch cfg, ''--force''] w"

text \<open>
  \<open>setOutput\<close> (lines 369 to 380). The file is opened for appending and created when
  absent; \<open>Fprintf\<close> appends the line \<open>name=value\<close>.
\<close>

definition setOutput :: "env \<Rightarrow> Config \<Rightarrow> string \<Rightarrow> string \<Rightarrow> world \<Rightarrow> error \<times> world" where
  "setOutput env cfg name val w =
     (case openFileErr env w (GitHubOutput cfg) of
        Some err \<Rightarrow> (Some (''open output file failed: '' @ err), w)
      | None \<Rightarrow>
          (case fprintfErr env w (GitHubOutput cfg) (name @ ''='' @ val @ [newline]) of
             Some (IoError err left) \<Rightarrow>
               (Some (''write output failed: '' @ err),
                w\<lparr>files := (files w)(GitHubOutput cfg := left)\<rparr>)
           | None \<Rightarrow>
               (None,
                record_event (Appended (GitHubOutput cfg) (name @ ''='' @ val @ [newline]))
                  (w\<lparr>files := (files w)(GitHubOutput cfg \<mapsto>
                         (case files w (GitHubOutput cfg) of None \<Rightarrow> [] | Some old \<Rightarrow> old)
                         @ name @ ''='' @ val @ [newline])\<rparr>))))"

section \<open>The program\<close>

text \<open>
  \<open>log.Fatal\<close> writes its message and calls \<open>os.Exit(1)\<close>: the process ends there and
  deferred calls do not run. A run is its exit status and the world it leaves.
\<close>

definition Fatal :: "string \<Rightarrow> world \<Rightarrow> nat \<times> world" where
  "Fatal msg w = (1, record_event (Logged msg) w)"

text \<open>
  \<open>main\<close> (lines 57 to 68). The deferred \<open>setOutput\<close> runs when \<open>main\<close> returns; the
  errors that \<open>pushChanges\<close> and \<open>setOutput\<close> return are not looked at.
\<close>

definition main :: "env \<Rightarrow> flags \<Rightarrow> world \<Rightarrow> nat \<times> world" where
  "main env fl w =
     (case parseConfig fl of
        Inl err \<Rightarrow> Fatal (''invalid configuration:'' @ err) w
      | Inr cfg \<Rightarrow>
          (case setupGitConfig env w of
             (Some err, w1) \<Rightarrow> Fatal (''error configuring Git:'' @ err) w1
           | (None, w1) \<Rightarrow>
               (case fetchQualifiedPRs env cfg w1 of
                  (Inl err, w2) \<Rightarrow> Fatal (''error fetching PRs:'' @ err) w2
                | (Inr prs, w2) \<Rightarrow>
                    (case prepareTargetBranch env cfg w2 of
                       (Some msg, w3) \<Rightarrow> Fatal msg w3
                     | (None, w3) \<Rightarrow>
                         (case processPRs env prs w3 of
                            (mergedPRs, w4) \<Rightarrow>
                              (case updateRefHistory env mergedPRs w4 of
                                 (Some err, w5) \<Rightarrow> Fatal (''error updating history:'' @ err) w5
                               | (None, w5) \<Rightarrow>
                                   (case pushChanges env cfg w5 of
                                      (pushErr, w6) \<Rightarrow>
                                        (case setOutput env cfg ''target_branch''
                                                (TargetBranch cfg) w6 of
                                           (outErr, w7) \<Rightarrow> (0, w7)))))))))"

section \<open>A scripted world for the examples\<close>

text \<open>
  The two pull requests of the specification's end-to-end scenario, a world in which
  nothing has happened yet, and an environment in which exactly the git commands listed
  in \<open>failing\<close> fail and the API answers with \<open>response\<close>. Its serialiser writes one
  record after the other.
\<close>

definition raw10 :: rawPR where
  "raw10 = \<lparr>rawNumber = 10, rawTitle = ''Add feature'', rawState = ''open'',
            rawCreatedAt = ''2024-01-01T00:00:00Z'', rawBaseRef = ''main'',
            rawLabels = [''next-feature'']\<rparr>"

definition raw11 :: rawPR where
  "raw11 = \<lparr>rawNumber = 11, rawTitle = ''Fix bug'', rawState = ''open'',
            rawCreatedAt = ''2024-02-01T00:00:00Z'', rawBaseRef = ''main'',
            rawLabels = [''bug'']\<rparr>"

definition pr10 :: GitHubPR where
  "pr10 = convertPR raw10"

definition pr11 :: GitHubPR where
  "pr11 = convertPR raw11"

definition w0 :: world where
  "w0 = \<lparr>trace = [], files = Map.empty\<rparr>"

definition showRecords :: "RefHistory \<Rightarrow> string" where
  "showRecords h = concat (map (\<lambda>r. showInt (PR r) @ '' '' @ Commit r @ '';'') (Merges h))"

text \<open>
  The scripted world's \<open>strings.TrimSpace\<close> removes leading and trailing tab, line
  feed, vertical tab, form feed, carriage return and space, as Go does on text of
  ASCII bytes; its \<open>strings.ToLower\<close> is \<open>asciiLower\<close>.
\<close>

definition isSpace :: "char \<Rightarrow> bool" where
  "isSpace c = ((of_char c :: nat) \<in> {9, 10, 11, 12, 13, 32})"

definition asciiTrimSpace :: "string \<Rightarrow> string" where
  "asciiTrimSpace s = rev (dropWhile isSpace (rev (dropWhile isSpace s)))"

definition testEnv :: "string list list \<Rightarrow> rawPR list \<Rightarrow> env" where
  "testEnv failing response =
     \<lparr>gitExec = (\<lambda>w args.
         if args \<in> set failing then CmdErr ''exit status 1'' []
         else if args = [''rev-parse'', ''HEAD''] then CmdOk (''abc123'' @ [newline])
         else CmdOk []),
      httpDo = (\<lambda>w req. Response 200 (Inr response)),
      now = (\<lambda>w. int (length (trace w))),
      writeFileErr = (\<lambda>w path data. None),
      openFileErr = (\<lambda>w path. None),
      fprintfErr = (\<lambda>w path line. None),
      marshalIndent = (\<lambda>h. Inr (showRecords h)),
      ToLower = asciiLower,
      TrimSpace = asciiTrimSpace,
      rangeOrder = (\<lambda>w entries. entries)\<rparr>"

definition testFlags :: "string \<Rightarrow> flags" where
  "testFlags labels =
     \<lparr>flag_github_token = Some ''t'', flag_owner = Some ''o'', flag_repo = Some ''r'',
      flag_trunk_branch = None, flag_target_branch = None, flag_labels = Some labels,
      flag_github_output = Some ''out''\<rparr>"

definition testConfig :: "string list \<Rightarrow> Config" where
  "testConfig required =
     \<lparr>GithubToken = ''t'', Owner = ''o'', Repo = ''r'', TrunkBranch = ''main'',
      TargetBranch = ''pre-main'', RequiredLabels = required, GitHubOutput = ''out''\<rparr>"

section \<open>Properties of label parsing and of the label filter\<close>

lemma foldl_addLabel_lookup:
  "(foldl (addLabel env) m ls) k \<noteq> None \<longleftrightarrow> m k \<noteq> None \<or> k \<in> ToLower env ` set ls"
  by (induction ls arbitrary: m) (auto simp: addLabel_def)

lemma anyRequired_iff:
  "anyRequired env m required \<longleftrightarrow> (\<exists>r\<in>set required. m (ToLower env r) \<noteq> None)"
  by (induction required) auto

lemma hasAnyLabel_iff:
  "hasAnyLabel env prLabels required \<longleftrightarrow>
     required = [] \<or>
     (\<exists>l\<in>set prLabels. \<exists>r\<in>set required. ToLower env l = ToLower env r)"
proof (cases "required = []")
  case True
  then show ?thesis by (simp add: hasAnyLabel_def)
next
  case False
  have "anyRequired env (foldl (addLabel env) Map.empty prLabels) required \<longleftrightarrow>
        (\<exists>r\<in>set required. ToLower env r \<in> ToLower env ` set prLabels)"
    unfolding anyRequired_iff foldl_addLabel_lookup by simp
  also have "\<dots> \<longleftrightarrow>
        (\<exists>l\<in>set prLabels. \<exists>r\<in>set required. ToLower env l = ToLower env r)"
    by (metis (no_types, lifting) image_iff)
  finally show ?thesis using False by (simp add: hasAnyLabel_def)
qed

lemma foldl_append_if:
  "foldl (\<lambda>acc x. if P x then acc @ [x] else acc) acc xs = acc @ filter P xs"
  by (induction xs arbitrary: acc) auto

lemma filterPRs_eq_filter:
  "filterPRs env prs required = filter (\<lambda>pr. hasAnyLabel env (Labels pr) required) prs"
  by (simp add: filterPRs_def foldl_append_if)

lemma splitFrom_not_Nil: "splitFrom sep cur s \<noteq> []"
  by (induction s arbitrary: cur) auto

lemma Join_Cons: "ps \<noteq> [] \<Longrightarrow> Join (p # ps) sep = p @ sep # Join ps sep"
  by (cases ps) auto

lemma Join_splitFrom: "Join (splitFrom sep cur s) sep = cur @ s"
  by (induction s arbitrary: cur) (auto simp: Join_Cons splitFrom_not_Nil)

lemma length_splitFrom: "length (splitFrom sep cur s) = Suc (count_list s sep)"
  by (induction s arbitrary: cur) auto

lemma splitFrom_no_sep:
  "sep \<notin> set cur \<Longrightarrow> p \<in> set (splitFrom sep cur s) \<Longrightarrow> sep \<notin> set p"
proof (induction s arbitrary: cur)
  case Nil
  then show ?case by simp
next
  case (Cons c cs)
  show ?case
  proof (cases "c = sep")
    case True
    with Cons.prems have "p = cur \<or> p \<in> set (splitFrom sep [] cs)" by simp
    then show ?thesis using Cons.IH [of "[]"] Cons.prems(1) by auto
  next
    case False
    with Cons.prems have "p \<in> set (splitFrom sep (cur @ [c]) cs)" by simp
    moreover have "sep \<notin> set (cur @ [c])" using False Cons.prems(1) by simp
    ultimately show ?thesis using Cons.IH by blast
  qed
qed

section \<open>Properties of the integration engine\<close>

subsection \<open>Traces\<close>

lemma gitRuns_append: "gitRuns (xs @ ys) = gitRuns xs @ gitRuns ys"
  by (induction xs rule: gitRuns.induct) auto

lemma fetches_append: "fetches (xs @ ys) = fetches xs @ fetches ys"
  by (induction xs rule: fetches.induct) auto

lemma appended_append: "appended (xs @ ys) = appended xs @ appended ys"
  by (induction xs rule: appended.induct) auto

lemma trace_record_event: "trace (record_event e w) = trace w @ [e]"
  by (simp add: record_event_def)

lemma files_record_event: "files (record_event e w) = files w"
  by (simp add: record_event_def)

lemma runGitCommand_cases:
  "runGitCommand env args w = (None, record_event (Git args True) w) \<or>
   (\<exists>err. runGitCommand env args w = (Some err, record_event (Git args False) w))"
  by (simp add: runGitCommand_def split: cmd_result.splits)

lemma runGitCommand_world:
  "snd (runGitCommand env args w) =
     record_event (Git args (fst (runGitCommand env args w) = None)) w"
  using runGitCommand_cases [of env args w] by auto

subsection \<open>The loop of processPRs\<close>

lemma processPRsLoop_acc:
  "processPRsLoop env prs acc w =
     (acc @ fst (processPRsLoop env prs [] w), snd (processPRsLoop env prs [] w))"
proof (induction prs arbitrary: acc w)
  case Nil
  then show ?case by simp
next
  case (Cons pr rest)
  show ?case
  proof (cases "processSinglePR env pr w")
    case (Pair r w1)
    show ?thesis
    proof (cases r)
      case None
      obtain rec w2 where c: "createMergeRecord env pr w1 = (rec, w2)"
        by (cases "createMergeRecord env pr w1")
      show ?thesis
        using Pair None c Cons.IH [of "acc @ [rec]" w2] Cons.IH [of "[rec]" w2] by simp
    next
      case (Some err)
      then show ?thesis
        using Pair
          Cons.IH [of acc "record_event (Logged (''PR #'' @ showInt (Number pr) @ '' failed: '' @ err)) w1"]
        by simp
    qed
  qed
qed

lemma processPRs_Nil: "processPRs env [] w = ([], w)"
  by (simp add: processPRs_def)

lemma processPRs_Cons:
  "processPRs env (pr # rest) w =
     (case processSinglePR env pr w of
        (Some err, w1) \<Rightarrow>
          processPRs env rest
            (record_event (Logged (''PR #'' @ showInt (Number pr) @ '' failed: '' @ err)) w1)
      | (None, w1) \<Rightarrow>
          (case createMergeRecord env pr w1 of
             (rec, w2) \<Rightarrow> (rec # fst (processPRs env rest w2), snd (processPRs env rest w2))))"
proof (cases "processSinglePR env pr w")
  case (Pair r w1)
  show ?thesis
  proof (cases r)
    case None
    obtain rec w2 where c: "createMergeRecord env pr w1 = (rec, w2)"
      by (cases "createMergeRecord env pr w1")
    show ?thesis
      using Pair None c processPRsLoop_acc [of env rest "[rec]" w2]
      by (simp add: processPRs_def)
  next
    case (Some err)
    then show ?thesis using Pair by (simp add: processPRs_def)
  qed
qed

lemma processPRs_append:
  "processPRs env (xs @ ys) w =
     (fst (processPRs env xs w) @ fst (processPRs env ys (snd (processPRs env xs w))),
      snd (processPRs env ys (snd (processPRs env xs w))))"
proof (induction xs arbitrary: w)
  case Nil
  then show ?case by (simp add: processPRs_Nil)
next
  case (Cons pr rest)
  show ?case
  proof (cases "processSinglePR env pr w")
    case (Pair r w1)
    show ?thesis
    proof (cases r)
      case None
      obtain rec w2 where c: "createMergeRecord env pr w1 = (rec, w2)"
        by (cases "createMergeRecord env pr w1")
      show ?thesis using Pair None c Cons.IH [of w2] by (simp add: processPRs_Cons)
    next
      case (Some err)
      then show ?thesis using Pair Cons.IH by (simp add: processPRs_Cons)
    qed
  qed
qed

lemma processPRs_single:
  "fst (processPRs env [pr] w) =
     (case processSinglePR env pr w of
        (Some err, w1) \<Rightarrow> []
      | (None, w1) \<Rightarrow> [fst (createMergeRecord env pr w1)])"
  by (simp add: processPRs_Cons processPRs_Nil split: prod.splits option.splits)

lemma processPRs_records:
  "fst (processPRs env prs w) =
     concat (map (\<lambda>i. case processSinglePR env (prs ! i) (snd (processPRs env (take i prs) w)) of
                         (Some err, w1) \<Rightarrow> []
                       | (None, w1) \<Rightarrow> [fst (createMergeRecord env (prs ! i) w1)])
               [0..<length prs])"
proof (induction prs rule: rev_induct)
  case Nil
  then show ?case by (simp add: processPRs_Nil)
next
  case (snoc pr prs)
  define F where "F = (\<lambda>ps i.
     case processSinglePR env (ps ! i) (snd (processPRs env (take i ps) w)) of
       (Some err, w1) \<Rightarrow> []
     | (None, w1) \<Rightarrow> [fst (createMergeRecord env (ps ! i) w1)])"
  have old: "map (F (prs @ [pr])) [0..<length prs] = map (F prs) [0..<length prs]"
  proof (rule map_cong [OF refl])
    fix i
    assume "i \<in> set [0..<length prs]"
    then have "i < length prs" by simp
    then have e1: "(prs @ [pr]) ! i = prs ! i" and e2: "take i (prs @ [pr]) = take i prs"
      by (simp_all add: nth_append)
    show "F (prs @ [pr]) i = F prs i"
      unfolding F_def e1 e2 by (rule refl)
  qed
  have e3: "(prs @ [pr]) ! length prs = pr" and e4: "take (length prs) (prs @ [pr]) = prs"
    by simp_all
  have new: "F (prs @ [pr]) (length prs) = fst (processPRs env [pr] (snd (processPRs env prs w)))"
    unfolding F_def e3 e4 processPRs_single by (rule refl)
  have IH: "fst (processPRs env prs w) = concat (map (F prs) [0..<length prs])"
    using snoc.IH by (simp add: F_def)
  have "fst (processPRs env (prs @ [pr]) w) =
          fst (processPRs env prs w) @ fst (processPRs env [pr] (snd (processPRs env prs w)))"
    by (simp add: processPRs_append)
  also have "\<dots> = concat (map (F prs) [0..<length prs]) @ F (prs @ [pr]) (length prs)"
    by (simp only: IH new)
  also have "\<dots> = concat (map (F (prs @ [pr])) [0..<length (prs @ [pr])])"
    by (simp add: old)
  finally show ?case by (simp only: F_def)
qed

lemma PR_createMergeRecord: "PR (fst (createMergeRecord env pr w)) = Number pr"
  by (simp add: createMergeRecord_def split: prod.splits)

lemma processPRs_numbers_subseq:
  "subseq (map PR (fst (processPRs env prs w))) (map Number prs)"
proof (induction prs arbitrary: w)
  case Nil
  then show ?case by (simp add: processPRs_Nil)
next
  case (Cons pr rest)
  show ?case
  proof (cases "processSinglePR env pr w")
    case (Pair r w1)
    show ?thesis
    proof (cases r)
      case None
      obtain rec w2 where c: "createMergeRecord env pr w1 = (rec, w2)"
        by (cases "createMergeRecord env pr w1")
      have "PR rec = Number pr" using PR_createMergeRecord [of env pr w1] c by simp
      then show ?thesis using Pair None c Cons.IH [of w2] by (simp add: processPRs_Cons)
    next
      case (Some err)
      have "subseq (map PR (fst (processPRs env rest
              (record_event (Logged (''PR #'' @ showInt (Number pr) @ '' failed: '' @ err)) w1))))
            (Number pr # map Number rest)"
        using Cons.IH by (rule list_emb_Cons)
      then show ?thesis using Pair Some by (simp add: processPRs_Cons)
    qed
  qed
qed

subsection \<open>The commands each candidate runs\<close>

lemma take1_fetchArgs: "take (Suc 0) (fetchArgs pr) = [''fetch'']"
  by (simp add: fetchArgs_def)

lemma fetches_runGit_fetch:
  "fetches (trace (snd (runGitCommand env (fetchArgs pr) w))) = fetches (trace w) @ [fetchArgs pr]"
  by (simp add: runGitCommand_world trace_record_event fetches_append take1_fetchArgs)

lemma fetches_runGit_other:
  "take 1 args \<noteq> [''fetch''] \<Longrightarrow>
   fetches (trace (snd (runGitCommand env args w))) = fetches (trace w)"
  by (simp add: runGitCommand_world trace_record_event fetches_append)

lemma fetches_processSinglePR:
  "fetches (trace (snd (processSinglePR env pr w))) = fetches (trace w) @ [fetchArgs pr]"
proof -
  have s: "take 1 (squashArgs pr) \<noteq> [''fetch'']" by (simp add: squashArgs_def)
  have c: "take 1 (commitArgs pr) \<noteq> [''fetch'']" by (simp add: commitArgs_def)
  show ?thesis
    using fetches_runGit_fetch [of env pr w]
      fetches_runGit_other [OF s, of env "snd (runGitCommand env (fetchArgs pr) w)"]
      fetches_runGit_other [OF c, of env
        "snd (runGitCommand env (squashArgs pr) (snd (runGitCommand env (fetchArgs pr) w)))"]
    by (auto simp: processSinglePR_def split: prod.splits option.splits)
qed

lemma fetches_createMergeRecord:
  "fetches (trace (snd (createMergeRecord env pr w))) = fetches (trace w)"
  by (simp add: createMergeRecord_def getLatestCommitSHA_def trace_record_event fetches_append
      split: prod.splits cmd_result.splits)

lemma fetches_processPRs:
  "fetches (trace (snd (processPRs env prs w))) = fetches (trace w) @ map fetchArgs prs"
proof (induction prs arbitrary: w)
  case Nil
  then show ?case by (simp add: processPRs_Nil)
next
  case (Cons pr rest)
  show ?case
  proof (cases "processSinglePR env pr w")
    case (Pair r w1)
    have f1: "fetches (trace w1) = fetches (trace w) @ [fetchArgs pr]"
      using fetches_processSinglePR [of env pr w] Pair by simp
    show ?thesis
    proof (cases r)
      case None
      obtain rec w2 where c: "createMergeRecord env pr w1 = (rec, w2)"
        by (cases "createMergeRecord env pr w1")
      have "fetches (trace w2) = fetches (trace w1)"
        using fetches_createMergeRecord [of env pr w1] c by simp
      then show ?thesis using Pair None c f1 Cons.IH [of w2] by (simp add: processPRs_Cons)
    next
      case (Some err)
      then show ?thesis
        using Pair f1 Cons.IH by (simp add: processPRs_Cons trace_record_event fetches_append)
    qed
  qed
qed

subsection \<open>The scripted world\<close>

lemma runGit_testEnv:
  "runGitCommand (testEnv failing resp) args w =
     (if args \<in> set failing
      then (Some (quote # ''git '' @ Join args CHR '' '' @ quote # '' failed: exit status 1''
                  @ [newline]),
            record_event (Git args False) w)
      else (None, record_event (Git args True) w))"
  by (simp add: runGitCommand_def testEnv_def)

lemma sha_testEnv:
  "getLatestCommitSHA (testEnv failing resp) w =
     (if [''rev-parse'', ''HEAD''] \<in> set failing then ''unknown'' else ''abc123'',
      record_event (Git [''rev-parse'', ''HEAD''] (\<not> [''rev-parse'', ''HEAD''] \<in> set failing)) w)"
proof -
  have "asciiTrimSpace (''abc123'' @ [newline]) = ''abc123''" by code_simp
  then show ?thesis by (simp add: getLatestCommitSHA_def testEnv_def)
qed

lemma showInt_10: "showInt 10 = ''10''"
  by code_simp

lemma showInt_11: "showInt 11 = ''11''"
  by code_simp

lemma args_pr10:
  "fetchArgs pr10 = [''fetch'', ''origin'', ''pull/10/head:pr-10'']"
  "squashArgs pr10 = [''merge'', ''--squash'', ''pr-10'']"
  "commitArgs pr10 = [''commit'', ''-m'', ''Add feature'']"
  by (simp_all add: fetchArgs_def squashArgs_def commitArgs_def prBranch_def pr10_def
      convertPR_def raw10_def showInt_10)

lemma args_pr11:
  "fetchArgs pr11 = [''fetch'', ''origin'', ''pull/11/head:pr-11'']"
  "squashArgs pr11 = [''merge'', ''--squash'', ''pr-11'']"
  "commitArgs pr11 = [''commit'', ''-m'', ''Fix bug'']"
  by (simp_all add: fetchArgs_def squashArgs_def commitArgs_def prBranch_def pr11_def
      convertPR_def raw11_def showInt_11)

lemma Number_pr: "Number pr10 = 10" "Number pr11 = 11"
  by (simp_all add: pr10_def pr11_def convertPR_def raw10_def raw11_def)

lemma single_pr10_squash_fails:
  "\<exists>err. processSinglePR (testEnv [[''merge'', ''--squash'', ''pr-10'']] resp) pr10 w =
     (Some err, record_event (Git [''merge'', ''--squash'', ''pr-10''] False)
                  (record_event (Git [''fetch'', ''origin'', ''pull/10/head:pr-10''] True) w))"
  by (simp add: processSinglePR_def runGit_testEnv args_pr10)

lemma single_pr11_ok:
  "processSinglePR (testEnv [[''merge'', ''--squash'', ''pr-10'']] resp) pr11 w =
     (None, record_event (Git [''commit'', ''-m'', ''Fix bug''] True)
              (record_event (Git [''merge'', ''--squash'', ''pr-11''] True)
                (record_event (Git [''fetch'', ''origin'', ''pull/11/head:pr-11''] True) w)))"
  by (simp add: processSinglePR_def runGit_testEnv args_pr11)

lemma processSinglePR_None_iff:
  "fst (processSinglePR env pr w) = None \<longleftrightarrow>
     fst (runGitCommand env (fetchArgs pr) w) = None
     \<and> fst (runGitCommand env (squashArgs pr) (record_event (Git (fetchArgs pr) True) w)) = None
     \<and> fst (runGitCommand env (commitArgs pr)
              (record_event (Git (squashArgs pr) True)
                (record_event (Git (fetchArgs pr) True) w))) = None"
proof (cases "runGitCommand env (fetchArgs pr) w")
  case f: (Pair r1 w1)
  show ?thesis
  proof (cases r1)
    case (Some err)
    then show ?thesis using f by (simp add: processSinglePR_def)
  next
    case n1: None
    have w1: "w1 = record_event (Git (fetchArgs pr) True) w"
      using f n1 runGitCommand_world [of env "fetchArgs pr" w] by simp
    show ?thesis
    proof (cases "runGitCommand env (squashArgs pr) w1")
      case s: (Pair r2 w2)
      show ?thesis
      proof (cases r2)
        case (Some err)
        then show ?thesis using f n1 s w1 by (simp add: processSinglePR_def)
      next
        case n2: None
        have w2: "w2 = record_event (Git (squashArgs pr) True) w1"
          using s n2 runGitCommand_world [of env "squashArgs pr" w1] by simp
        show ?thesis
          using f n1 s n2 w1 w2
          by (simp add: processSinglePR_def split: prod.splits option.splits)
      qed
    qed
  qed
qed

text \<open>
  C1: a candidate whose fetch, squash or commit fails is skipped and the candidates
  after it are still processed. The records \<open>processPRs\<close> returns are, candidate by
  candidate in the order of the list, one record for a candidate whose
  \<open>processSinglePR\<close> succeeds in the world its predecessors left (whether they failed
  or not) and none for one that fails, where \<open>processSinglePR\<close> succeeds exactly
  when the fetch, the squash and the commit all do; the records' numbers are a
  subsequence of the candidates' numbers; every candidate of the list is fetched, in
  order. For the
  candidates \<open>[a, b]\<close> with \<open>a\<close> failing and \<open>b\<close> succeeding, exactly one record is
  returned, for \<open>b\<close>.
\<close>

theorem processPRs_skips_failed_candidates:
  "fst (processPRs env prs w) =
     concat (map (\<lambda>i. case processSinglePR env (prs ! i) (snd (processPRs env (take i prs) w)) of
                         (Some err, w1) \<Rightarrow> []
                       | (None, w1) \<Rightarrow> [fst (createMergeRecord env (prs ! i) w1)])
               [0..<length prs])
   \<and> (fst (processSinglePR env pr w) = None \<longleftrightarrow>
        fst (runGitCommand env (fetchArgs pr) w) = None
        \<and> fst (runGitCommand env (squashArgs pr) (record_event (Git (fetchArgs pr) True) w)) = None
        \<and> fst (runGitCommand env (commitArgs pr)
                 (record_event (Git (squashArgs pr) True)
                   (record_event (Git (fetchArgs pr) True) w))) = None)
   \<and> subseq (map PR (fst (processPRs env prs w))) (map Number prs)
   \<and> fetches (trace (snd (processPRs env prs w))) = fetches (trace w) @ map fetchArgs prs
   \<and> (fst (processSinglePR env a w) \<noteq> None \<longrightarrow>
      fst (processSinglePR env b (snd (processPRs env [a] w))) = None \<longrightarrow>
      (\<exists>r. fst (processPRs env [a, b] w) = [r] \<and> PR r = Number b))"
proof -
  have two: "\<exists>r. fst (processPRs env [a, b] w) = [r] \<and> PR r = Number b"
    if fa: "fst (processSinglePR env a w) \<noteq> None"
      and fb: "fst (processSinglePR env b (snd (processPRs env [a] w))) = None"
  proof -
    have ra: "fst (processPRs env [a] w) = []"
      using fa by (auto simp: processPRs_single split: prod.splits option.splits)
    have rb: "fst (processPRs env [b] (snd (processPRs env [a] w))) =
                [fst (createMergeRecord env b
                   (snd (processSinglePR env b (snd (processPRs env [a] w)))))]"
      using fb by (auto simp: processPRs_single split: prod.splits option.splits)
    have "fst (processPRs env ([a] @ [b]) w) =
            fst (processPRs env [a] w) @ fst (processPRs env [b] (snd (processPRs env [a] w)))"
      by (simp only: processPRs_append fst_conv)
    then show ?thesis using ra rb by (simp add: PR_createMergeRecord)
  qed
  show ?thesis
    using processPRs_records [of env prs w] processPRs_numbers_subseq [of env prs w]
      fetches_processPRs [of env prs w] two processSinglePR_None_iff [of env pr w]
    by blast
qed

theorem processPRs_skips_failed_candidates_witness:
  "fst (processSinglePR (testEnv [[''merge'', ''--squash'', ''pr-10'']] []) pr10 w0) \<noteq> None
   \<and> fst (processSinglePR (testEnv [[''merge'', ''--squash'', ''pr-10'']] []) pr11
           (snd (processPRs (testEnv [[''merge'', ''--squash'', ''pr-10'']] []) [pr10] w0))) = None
   \<and> (\<exists>r. fst (processPRs (testEnv [[''merge'', ''--squash'', ''pr-10'']] []) [pr10, pr11] w0) = [r]
          \<and> PR r = 11)"
proof -
  have a: "fst (processSinglePR (testEnv [[''merge'', ''--squash'', ''pr-10'']] []) pr10 w0) \<noteq> None"
    using single_pr10_squash_fails [of "[]" w0] by auto
  have b: "fst (processSinglePR (testEnv [[''merge'', ''--squash'', ''pr-10'']] []) pr11
           (snd (processPRs (testEnv [[''merge'', ''--squash'', ''pr-10'']] []) [pr10] w0))) = None"
    by (simp add: single_pr11_ok)
  have "\<exists>r. fst (processPRs (testEnv [[''merge'', ''--squash'', ''pr-10'']] []) [pr10, pr11] w0) = [r]
          \<and> PR r = Number pr11"
    using a b
      processPRs_skips_failed_candidates
        [of "testEnv [[''merge'', ''--squash'', ''pr-10'']] []" "[pr10, pr11]" w0 pr10 pr10 pr11]
    by blast
  then show ?thesis
    using a b unfolding Number_pr by blast
qed

subsection \<open>What a run adds to the trace\<close>

lemma trace_runGitCommand:
  "trace (snd (runGitCommand env args w)) =
     trace w @ [Git args (fst (runGitCommand env args w) = None)]"
  by (simp add: runGitCommand_world trace_record_event)

lemma trace_processSinglePR:
  "\<exists>es. trace (snd (processSinglePR env pr w)) =
          trace w @ Git (fetchArgs pr) (fst (runGitCommand env (fetchArgs pr) w) = None) # es"
proof (cases "runGitCommand env (fetchArgs pr) w")
  case f: (Pair r1 w1)
  have t1: "trace w1 = trace w @ [Git (fetchArgs pr) (r1 = None)]"
    using trace_runGitCommand [of env "fetchArgs pr" w] f by simp
  show ?thesis
  proof (cases r1)
    case (Some err)
    then show ?thesis using f t1 by (simp add: processSinglePR_def)
  next
    case None
    show ?thesis
    proof (cases "runGitCommand env (squashArgs pr) w1")
      case s: (Pair r2 w2)
      have t2: "trace w2 = trace w1 @ [Git (squashArgs pr) (r2 = None)]"
        using trace_runGitCommand [of env "squashArgs pr" w1] s by simp
      show ?thesis
      proof (cases r2)
        case (Some err)
        then show ?thesis using f None s t1 t2 by (simp add: processSinglePR_def)
      next
        case n2: None
        show ?thesis
        proof (cases "runGitCommand env (commitArgs pr) w2")
          case c: (Pair r3 w3)
          have t3: "trace w3 = trace w2 @ [Git (commitArgs pr) (r3 = None)]"
            using trace_runGitCommand [of env "commitArgs pr" w2] c by simp
          show ?thesis
            using f None s n2 c t1 t2 t3 by (cases r3) (simp_all add: processSinglePR_def)
        qed
      qed
    qed
  qed
qed

lemma trace_createMergeRecord:
  "\<exists>es. trace (snd (createMergeRecord env pr w)) = trace w @ es"
  by (simp add: createMergeRecord_def getLatestCommitSHA_def trace_record_event
      split: prod.splits cmd_result.splits)

lemma trace_processPRs: "\<exists>es. trace (snd (processPRs env prs w)) = trace w @ es"
proof (induction prs arbitrary: w)
  case Nil
  then show ?case by (simp add: processPRs_Nil)
next
  case (Cons pr rest)
  show ?case
  proof (cases "processSinglePR env pr w")
    case (Pair r w1)
    obtain e1 where t1: "trace w1 = trace w @ e1"
      using trace_processSinglePR [of env pr w] Pair by auto
    show ?thesis
    proof (cases r)
      case None
      obtain rec w2 where c: "createMergeRecord env pr w1 = (rec, w2)"
        by (cases "createMergeRecord env pr w1")
      obtain e2 where t2: "trace w2 = trace w1 @ e2"
        using trace_createMergeRecord [of env pr w1] c by auto
      obtain e3 where "trace (snd (processPRs env rest w2)) = trace w2 @ e3"
        using Cons.IH [of w2] by auto
      then show ?thesis using Pair None c t1 t2 by (simp add: processPRs_Cons)
    next
      case (Some err)
      obtain e3 where "trace (snd (processPRs env rest
            (record_event (Logged (''PR #'' @ showInt (Number pr) @ '' failed: '' @ err)) w1))) =
          trace (record_event (Logged (''PR #'' @ showInt (Number pr) @ '' failed: '' @ err)) w1) @ e3"
        using Cons.IH by blast
      then show ?thesis using Pair Some t1 by (simp add: processPRs_Cons trace_record_event)
    qed
  qed
qed

lemma trace_processPRs_Cons:
  "\<exists>es. trace (snd (processPRs env (pr # rest) w)) =
          trace w @ Git (fetchArgs pr) (fst (runGitCommand env (fetchArgs pr) w) = None) # es"
proof (cases "processSinglePR env pr w")
  case (Pair r w1)
  obtain e0 where t0: "trace w1 =
      trace w @ Git (fetchArgs pr) (fst (runGitCommand env (fetchArgs pr) w) = None) # e0"
    using trace_processSinglePR [of env pr w] Pair by auto
  show ?thesis
  proof (cases r)
    case None
    obtain rec w2 where c: "createMergeRecord env pr w1 = (rec, w2)"
      by (cases "createMergeRecord env pr w1")
    obtain e2 where t2: "trace w2 = trace w1 @ e2"
      using trace_createMergeRecord [of env pr w1] c by auto
    obtain e3 where "trace (snd (processPRs env rest w2)) = trace w2 @ e3"
      using trace_processPRs by blast
    then show ?thesis using Pair None c t0 t2 by (simp add: processPRs_Cons)
  next
    case (Some err)
    obtain e3 where "trace (snd (processPRs env rest
          (record_event (Logged (''PR #'' @ showInt (Number pr) @ '' failed: '' @ err)) w1))) =
        trace (record_event (Logged (''PR #'' @ showInt (Number pr) @ '' failed: '' @ err)) w1) @ e3"
      using trace_processPRs by blast
    then show ?thesis using Pair Some t0 by (simp add: processPRs_Cons trace_record_event)
  qed
qed

text \<open>
  C3 (as amended): when a candidate's fetch succeeds and its squash fails,
  \<open>processSinglePR\<close> returns the error having run the fetch and the squash and nothing
  else; \<open>processPRs\<close> logs the failure and goes on with the remaining candidates in the
  world the failed squash left; and the next git command after the failed squash is the
  next candidate's fetch. No command that would abort or reset the squash is run in
  between.
\<close>

theorem failed_squash_is_not_undone:
  assumes "fst (runGitCommand env (fetchArgs pr) w) = None"
    and "fst (runGitCommand env (squashArgs pr) (record_event (Git (fetchArgs pr) True) w)) \<noteq> None"
  shows "\<exists>err.
     processSinglePR env pr w =
       (Some err, record_event (Git (squashArgs pr) False) (record_event (Git (fetchArgs pr) True) w))
     \<and> processPRs env (pr # rest) w =
         processPRs env rest
           (record_event (Logged (''PR #'' @ showInt (Number pr) @ '' failed: '' @ err))
             (record_event (Git (squashArgs pr) False) (record_event (Git (fetchArgs pr) True) w)))
     \<and> (\<exists>ok runs.
           gitRuns (trace (snd (processPRs env (pr # nxt # rest) w))) =
             gitRuns (trace w)
             @ [(fetchArgs pr, True), (squashArgs pr, False), (fetchArgs nxt, ok)] @ runs)"
proof -
  have f: "runGitCommand env (fetchArgs pr) w = (None, record_event (Git (fetchArgs pr) True) w)"
    using assms(1) runGitCommand_cases [of env "fetchArgs pr" w] by auto
  obtain e where s: "runGitCommand env (squashArgs pr) (record_event (Git (fetchArgs pr) True) w) =
      (Some e, record_event (Git (squashArgs pr) False) (record_event (Git (fetchArgs pr) True) w))"
    using assms(2)
      runGitCommand_cases [of env "squashArgs pr" "record_event (Git (fetchArgs pr) True) w"]
    by auto
  define wf where
    "wf = record_event (Git (squashArgs pr) False) (record_event (Git (fetchArgs pr) True) w)"
  define err where "err = ''squash merge failed: '' @ e"
  define wl where
    "wl = record_event (Logged (''PR #'' @ showInt (Number pr) @ '' failed: '' @ err)) wf"
  have single: "processSinglePR env pr w = (Some err, wf)"
    using f s by (simp add: processSinglePR_def wf_def err_def)
  have skip: "processPRs env (pr # ps) w = processPRs env ps wl" for ps
    using single by (simp add: processPRs_Cons wl_def)
  obtain es where "trace (snd (processPRs env (nxt # rest) wl)) =
      trace wl @ Git (fetchArgs nxt) (fst (runGitCommand env (fetchArgs nxt) wl) = None) # es"
    using trace_processPRs_Cons by blast
  then have "gitRuns (trace (snd (processPRs env (pr # nxt # rest) w))) =
      gitRuns (trace w)
      @ [(fetchArgs pr, True), (squashArgs pr, False),
         (fetchArgs nxt, fst (runGitCommand env (fetchArgs nxt) wl) = None)] @ gitRuns es"
    by (simp add: skip wl_def wf_def trace_record_event gitRuns_append)
  then show ?thesis
    using single skip [of rest] unfolding wl_def wf_def by blast
qed


theorem failed_squash_is_not_undone_witness:
  "fst (runGitCommand (testEnv [[''merge'', ''--squash'', ''pr-10'']] []) (fetchArgs pr10) w0) = None
   \<and> fst (runGitCommand (testEnv [[''merge'', ''--squash'', ''pr-10'']] []) (squashArgs pr10)
           (record_event (Git (fetchArgs pr10) True) w0)) \<noteq> None
   \<and> (\<exists>err.
         processSinglePR (testEnv [[''merge'', ''--squash'', ''pr-10'']] []) pr10 w0 =
           (Some err,
            record_event (Git (squashArgs pr10) False) (record_event (Git (fetchArgs pr10) True) w0))
         \<and> processPRs (testEnv [[''merge'', ''--squash'', ''pr-10'']] []) [pr10] w0 =
             processPRs (testEnv [[''merge'', ''--squash'', ''pr-10'']] []) []
               (record_event (Logged (''PR #'' @ showInt (Number pr10) @ '' failed: '' @ err))
                 (record_event (Git (squashArgs pr10) False)
                   (record_event (Git (fetchArgs pr10) True) w0)))
         \<and> (\<exists>ok runs.
               gitRuns (trace (snd (processPRs (testEnv [[''merge'', ''--squash'', ''pr-10'']] [])
                                      [pr10, pr11] w0))) =
                 gitRuns (trace w0)
                 @ [(fetchArgs pr10, True), (squashArgs pr10, False), (fetchArgs pr11, ok)] @ runs))"
proof -
  have a: "fst (runGitCommand (testEnv [[''merge'', ''--squash'', ''pr-10'']] []) (fetchArgs pr10) w0) = None"
    by (simp add: runGit_testEnv args_pr10)
  have b: "fst (runGitCommand (testEnv [[''merge'', ''--squash'', ''pr-10'']] []) (squashArgs pr10)
           (record_event (Git (fetchArgs pr10) True) w0)) \<noteq> None"
    by (simp add: runGit_testEnv args_pr10)
  show ?thesis
    using a b
      failed_squash_is_not_undone
        [OF a b, of "[]" pr11]
    by blast
qed

text \<open>
  The claim as stated fails: with the squash of pull request 10 failing, the git commands
  of the run are the following, and the failed squash is followed at once by the fetch of
  pull request 11.
\<close>

theorem failed_squash_counterexample:
  "gitRuns (trace (snd (processPRs (testEnv [[''merge'', ''--squash'', ''pr-10'']] [])
                         [pr10, pr11] w0))) =
     [([''fetch'', ''origin'', ''pull/10/head:pr-10''], True),
      ([''merge'', ''--squash'', ''pr-10''], False),
      ([''fetch'', ''origin'', ''pull/11/head:pr-11''], True),
      ([''merge'', ''--squash'', ''pr-11''], True),
      ([''commit'', ''-m'', ''Fix bug''], True),
      ([''rev-parse'', ''HEAD''], True)]"
  by (simp add: processPRs_Cons processPRs_Nil processSinglePR_def runGit_testEnv args_pr10
      args_pr11 createMergeRecord_def sha_testEnv trace_record_event w0_def)

text \<open>
  C10 (as amended): \<open>createMergeRecord\<close> always returns a record for the pull
  request, and a candidate that \<open>processSinglePR\<close> integrated gets its record whatever
  \<open>git rev-parse HEAD\<close> does. When that command fails, the commit field is the string
  \<open>unknown\<close>; when it succeeds, the commit field is its output after
  \<open>strings.TrimSpace\<close>. So the commit field is empty exactly when the command
  succeeds and its output trims to nothing, and is not empty otherwise.
\<close>

theorem createMergeRecord_never_fails:
  "PR (fst (createMergeRecord env pr w)) = Number pr
   \<and> ((\<exists>err out. gitExec env w [''rev-parse'', ''HEAD''] = CmdErr err out) \<longrightarrow>
        Commit (fst (createMergeRecord env pr w)) = ''unknown'')
   \<and> (\<forall>out. gitExec env w [''rev-parse'', ''HEAD''] = CmdOk out \<longrightarrow>
        Commit (fst (createMergeRecord env pr w)) = TrimSpace env out)
   \<and> (Commit (fst (createMergeRecord env pr w)) = [] \<longleftrightarrow>
        (\<exists>out. gitExec env w [''rev-parse'', ''HEAD''] = CmdOk out \<and> TrimSpace env out = []))
   \<and> (fst (processSinglePR env pr w) = None \<longrightarrow>
        fst (processPRs env [pr] w) =
          [fst (createMergeRecord env pr (snd (processSinglePR env pr w)))])"
proof -
  have "fst (processPRs env [pr] w) =
          [fst (createMergeRecord env pr (snd (processSinglePR env pr w)))]"
    if "fst (processSinglePR env pr w) = None"
    using that by (auto simp: processPRs_single split: prod.splits option.splits)
  then show ?thesis
    by (auto simp: createMergeRecord_def getLatestCommitSHA_def split: cmd_result.splits)
qed

theorem createMergeRecord_never_fails_witness:
  "(\<exists>err out. gitExec (testEnv [[''rev-parse'', ''HEAD'']] []) w0 [''rev-parse'', ''HEAD'']
                 = CmdErr err out)
   \<and> fst (processSinglePR (testEnv [[''rev-parse'', ''HEAD'']] []) pr10 w0) = None
   \<and> Commit (fst (createMergeRecord (testEnv [[''rev-parse'', ''HEAD'']] []) pr10 w0)) = ''unknown''
   \<and> map PR (fst (processPRs (testEnv [[''rev-parse'', ''HEAD'']] []) [pr10] w0)) = [10]
   \<and> map Commit (fst (processPRs (testEnv [[''rev-parse'', ''HEAD'']] []) [pr10] w0)) = [''unknown'']
   \<and> gitExec (testEnv [] []) w0 [''rev-parse'', ''HEAD''] = CmdOk (''abc123'' @ [newline])
   \<and> Commit (fst (createMergeRecord (testEnv [] []) pr10 w0)) = ''abc123''"
proof -
  have a: "\<exists>err out. gitExec (testEnv [[''rev-parse'', ''HEAD'']] []) w0 [''rev-parse'', ''HEAD'']
                 = CmdErr err out"
    by (simp add: testEnv_def)
  have b: "fst (processSinglePR (testEnv [[''rev-parse'', ''HEAD'']] []) pr10 w0) = None"
    by (simp add: processSinglePR_def runGit_testEnv args_pr10)
  have c: "Commit (fst (createMergeRecord (testEnv [[''rev-parse'', ''HEAD'']] []) pr10 w0)) = ''unknown''"
    using a createMergeRecord_never_fails [of "testEnv [[''rev-parse'', ''HEAD'']] []" pr10 w0]
    by blast
  have d: "fst (processPRs (testEnv [[''rev-parse'', ''HEAD'']] []) [pr10] w0) =
          [fst (createMergeRecord (testEnv [[''rev-parse'', ''HEAD'']] []) pr10
                 (snd (processSinglePR (testEnv [[''rev-parse'', ''HEAD'']] []) pr10 w0)))]"
    using b createMergeRecord_never_fails [of "testEnv [[''rev-parse'', ''HEAD'']] []" pr10 w0]
    by blast
  have e: "gitExec (testEnv [] []) w0 [''rev-parse'', ''HEAD''] = CmdOk (''abc123'' @ [newline])"
    by (simp add: testEnv_def)
  have t: "TrimSpace (testEnv [] []) (''abc123'' @ [newline]) = ''abc123''"
  proof -
    have "asciiTrimSpace (''abc123'' @ [newline]) = ''abc123''" by code_simp
    then show ?thesis by (simp add: testEnv_def)
  qed
  have f: "Commit (fst (createMergeRecord (testEnv [] []) pr10 w0)) = ''abc123''"
    using e t createMergeRecord_never_fails [of "testEnv [] []" pr10 w0] by simp
  show ?thesis
    using a b c e f unfolding d
    by (simp add: createMergeRecord_def sha_testEnv Number_pr)
qed

text \<open>
  The claim as stated fails: when \<open>git rev-parse HEAD\<close> exits with status 0 and
  prints only a line feed, the record is produced with an empty commit field.
\<close>

theorem commit_field_empty_counterexample:
  "gitExec ((testEnv [] [])\<lparr>gitExec := \<lambda>w args. CmdOk [newline]\<rparr>) w0 [''rev-parse'', ''HEAD'']
     = CmdOk [newline]
   \<and> Commit (fst (createMergeRecord ((testEnv [] [])\<lparr>gitExec := \<lambda>w args. CmdOk [newline]\<rparr>)
                    pr10 w0)) = []
   \<and> map Commit (fst (processPRs ((testEnv [] [])\<lparr>gitExec := \<lambda>w args. CmdOk [newline]\<rparr>)
                         [pr10] w0)) = [[]]"
proof -
  have t: "asciiTrimSpace [newline] = []" by code_simp
  show ?thesis
    by (simp add: processPRs_Cons processPRs_Nil processSinglePR_def runGitCommand_def
        createMergeRecord_def getLatestCommitSHA_def testEnv_def t)
qed

section \<open>The claims on label parsing and the label filter\<close>

lemma ToLower_testEnv: "ToLower (testEnv failing resp) = asciiLower"
  by (simp add: testEnv_def)



text \<open>
  C8: with an empty required list the label filter returns its input unchanged; the
  empty label string of the configuration gives that empty list.
\<close>

theorem label_filter_identity:
  "filterPRs env prs [] = prs \<and> filterPRs env prs (parseLabels []) = prs"
  by (simp add: filterPRs_eq_filter hasAnyLabel_def parseLabels_def)

theorem label_filter_identity_witness:
  "filterPRs (testEnv [] []) [pr11, pr10, pr11] [] = [pr11, pr10, pr11]"
  using label_filter_identity [of "testEnv [] []" "[pr11, pr10, pr11]"] by simp

text \<open>
  C9: \<open>parseLabels\<close> splits the configured string at its commas and changes nothing
  else. Only the empty string gives the empty list; for any other string, joining the
  entries with commas gives the string back (so no entry is trimmed and none is dropped),
  there is one entry more than the string has commas, and no entry contains a comma. A
  candidate then qualifies exactly when one of its labels equals one of the entries
  after \<open>strings.ToLower\<close> of both. So \<open>,\<close> gives two empty entries, which the empty
  label matches, and \<open>a, b\<close> gives \<open>a\<close> and \<open>b\<close> with its leading space; and with
  Go's \<open>ToLower\<close> on ASCII text, the label \<open>b\<close> does not match \<open>a, b\<close> while the
  label \<open>B\<close> with a leading space does, and the label \<open>a\<close> does not match \<open>,\<close>.
\<close>

theorem parseLabels_verbatim:
  "(parseLabels input = [] \<longleftrightarrow> input = [])
   \<and> (input \<noteq> [] \<longrightarrow>
        Join (parseLabels input) CHR '','' = input
        \<and> length (parseLabels input) = Suc (count_list input CHR '','')
        \<and> (\<forall>p\<in>set (parseLabels input). CHR '','' \<notin> set p)
        \<and> (hasAnyLabel env prLabels (parseLabels input) \<longleftrightarrow>
             (\<exists>l\<in>set prLabels. \<exists>r\<in>set (parseLabels input). ToLower env l = ToLower env r)))
   \<and> parseLabels '','' = [[], []]
   \<and> parseLabels ''a, b'' = [''a'', '' b'']
   \<and> hasAnyLabel env [[]] (parseLabels '','')
   \<and> ((\<forall>s. isASCII s \<longrightarrow> ToLower env s = asciiLower s) \<longrightarrow>
        \<not> hasAnyLabel env [''b''] (parseLabels ''a, b'')
        \<and> hasAnyLabel env ['' B''] (parseLabels ''a, b'')
        \<and> \<not> hasAnyLabel env [''a''] (parseLabels '',''))"
proof -
  have empty: "parseLabels input = [] \<longleftrightarrow> input = []"
    by (simp add: parseLabels_def Split_def splitFrom_not_Nil)
  have nonempty: "Join (parseLabels input) CHR '','' = input
        \<and> length (parseLabels input) = Suc (count_list input CHR '','')
        \<and> (\<forall>p\<in>set (parseLabels input). CHR '','' \<notin> set p)
        \<and> (hasAnyLabel env prLabels (parseLabels input) \<longleftrightarrow>
             (\<exists>l\<in>set prLabels. \<exists>r\<in>set (parseLabels input). ToLower env l = ToLower env r))"
    if ne: "input \<noteq> []"
  proof -
    have p: "parseLabels input = splitFrom CHR '','' [] input"
      using ne by (simp add: parseLabels_def Split_def)
    have "\<forall>p\<in>set (splitFrom CHR '','' [] input). CHR '','' \<notin> set p"
      using splitFrom_no_sep [of "CHR '',''" "[]" _ input] by simp
    moreover have "parseLabels input \<noteq> []" using empty ne by simp
    ultimately show ?thesis
      unfolding p by (simp add: Join_splitFrom length_splitFrom hasAnyLabel_iff)
  qed
  have ps: "parseLabels '','' = [[], []]" "parseLabels ''a, b'' = [''a'', '' b'']"
    by code_simp+
  have e0: "hasAnyLabel env [[]] (parseLabels '','')"
    by (simp add: ps hasAnyLabel_iff)
  have ex: "\<not> hasAnyLabel env [''b''] (parseLabels ''a, b'')
        \<and> hasAnyLabel env ['' B''] (parseLabels ''a, b'')
        \<and> \<not> hasAnyLabel env [''a''] (parseLabels '','')"
    if a: "\<forall>s. isASCII s \<longrightarrow> ToLower env s = asciiLower s"
  proof -
    have i: "isASCII ''b''" "isASCII ''a''" "isASCII '' b''" "isASCII '' B''" "isASCII []"
      by code_simp+
    have v: "asciiLower ''b'' = ''b''" "asciiLower ''a'' = ''a''" "asciiLower '' b'' = '' b''"
      "asciiLower '' B'' = '' b''" "asciiLower [] = []"
      by code_simp+
    have "ToLower env ''b'' = ''b''" "ToLower env ''a'' = ''a''" "ToLower env '' b'' = '' b''"
      "ToLower env '' B'' = '' b''" "ToLower env [] = []"
      using a i v by auto
    then show ?thesis by (simp add: ps hasAnyLabel_iff)
  qed
  show ?thesis using empty nonempty ps e0 ex by blast
qed

theorem parseLabels_verbatim_witness:
  "''x,, Y'' \<noteq> []
   \<and> parseLabels ''x,, Y'' = [''x'', [], '' Y'']
   \<and> Join (parseLabels ''x,, Y'') CHR '','' = ''x,, Y''
   \<and> length (parseLabels ''x,, Y'') = 3
   \<and> hasAnyLabel (testEnv [] []) ['' y''] (parseLabels ''x,, Y'')
   \<and> \<not> hasAnyLabel (testEnv [] []) [''y''] (parseLabels ''x,, Y'')
   \<and> \<not> hasAnyLabel (testEnv [] []) [''b''] (parseLabels ''a, b'')
   \<and> hasAnyLabel (testEnv [] []) ['' B''] (parseLabels ''a, b'')
   \<and> \<not> hasAnyLabel (testEnv [] []) [''a''] (parseLabels '','')"
proof -
  have h: "\<forall>s. isASCII s \<longrightarrow> ToLower (testEnv [] []) s = asciiLower s"
    by (simp add: ToLower_testEnv)
  have ne: "''x,, Y'' \<noteq> []" by simp
  have p: "parseLabels ''x,, Y'' = [''x'', [], '' Y'']" by code_simp
  have l: "asciiLower '' y'' = '' y''" "asciiLower ''y'' = ''y''" "asciiLower ''x'' = ''x''"
    "asciiLower [] = []" "asciiLower '' Y'' = '' y''"
    by code_simp+
  have a: "hasAnyLabel (testEnv [] []) ['' y''] (parseLabels ''x,, Y'')"
    using parseLabels_verbatim [of "''x,, Y''" "testEnv [] []" "['' y'']"] ne
    by (simp add: p l ToLower_testEnv)
  have b: "\<not> hasAnyLabel (testEnv [] []) [''y''] (parseLabels ''x,, Y'')"
    using parseLabels_verbatim [of "''x,, Y''" "testEnv [] []" "[''y'']"] ne
    by (simp add: p l ToLower_testEnv)
  have c: "Join (parseLabels ''x,, Y'') CHR '','' = ''x,, Y''
           \<and> length (parseLabels ''x,, Y'') = Suc (count_list ''x,, Y'' CHR '','')"
    using parseLabels_verbatim [of "''x,, Y''" "testEnv [] []" "[]"] ne by blast
  have d: "\<not> hasAnyLabel (testEnv [] []) [''b''] (parseLabels ''a, b'')
        \<and> hasAnyLabel (testEnv [] []) ['' B''] (parseLabels ''a, b'')
        \<and> \<not> hasAnyLabel (testEnv [] []) [''a''] (parseLabels '','')"
    using h parseLabels_verbatim [of "[]" "testEnv [] []" "[]"] by blast
  show ?thesis using ne p a b c d by simp
qed

section \<open>The order of integration\<close>

lemma fetch_testEnv:
  "fetchQualifiedPRs (testEnv failing resp) cfg w =
     (Inr (filterPRs (testEnv failing resp) (map convertPR resp) (RequiredLabels cfg)),
      record_event (Get (prRequest cfg)) w)"
  by (simp add: fetchQualifiedPRs_def testEnv_def)







section \<open>Running the program in the scripted world\<close>

lemma parse_testFlags: "parseConfig (testFlags labels) = Inr (testConfig (parseLabels labels))"
  by (simp add: parseConfig_def testFlags_def testConfig_def StringVar_def Let_def)

lemma testConfig_sel:
  "TrunkBranch (testConfig req) = ''main''" "TargetBranch (testConfig req) = ''pre-main''"
  "GitHubOutput (testConfig req) = ''out''" "RequiredLabels (testConfig req) = req"
  by (simp_all add: testConfig_def)

lemma setup_testEnv:
  "\<forall>a\<in>set failing. take (Suc 0) a \<noteq> [''config''] \<Longrightarrow>
   setupGitConfig (testEnv failing resp) w =
     (None,
      record_event (Git [''config'', ''--global'', ''advice.addIgnoredFile'', ''false''] True)
        (record_event (Git [''config'', ''--global'', ''user.email'',
                            ''41898282+github-actions[bot]@users.noreply.github.com''] True)
          (record_event (Git [''config'', ''--global'', ''user.name'', ''github-actions[bot]''] True)
            (record_event (Git [''config'', ''--global'', ''safe.directory'', ''/github/workspace''] True)
              w))))"
proof -
  assume a: "\<forall>a\<in>set failing. take (Suc 0) a \<noteq> [''config'']"
  have n: "[''config'', x, y, z] \<notin> set failing" for x y z
    using a by auto
  have r: "rangeOrder (testEnv failing resp) w configs = configs"
    by (simp add: testEnv_def)
  show ?thesis
    unfolding setupGitConfig_def r
    by (simp add: configs_def runGit_testEnv n)
qed

lemma prepare_testEnv:
  "\<forall>a\<in>set failing. take (Suc 0) a \<notin> {[''checkout''], [''show-ref''], [''branch'']} \<Longrightarrow>
   prepareTargetBranch (testEnv failing resp) (testConfig req) w =
     (None,
      record_event (Git [''checkout'', ''-B'', ''pre-main''] True)
        (record_event (Git [''branch'', ''-D'', ''pre-main''] True)
          (record_event (Git [''show-ref'', ''--verify'', ''refs/heads/pre-main''] True)
            (record_event (Git [''checkout'', ''main''] True) w))))"
proof -
  assume a: "\<forall>a\<in>set failing. take (Suc 0) a \<notin> {[''checkout''], [''show-ref''], [''branch'']}"
  have n: "[''checkout'', x] \<notin> set failing" "[''checkout'', x, y] \<notin> set failing"
    "[''show-ref'', x, y] \<notin> set failing" "[''branch'', x, y] \<notin> set failing" for x y
    using a by auto
  show ?thesis
    by (simp add: prepareTargetBranch_def branchExists_def createTargetBranch_def
        runGit_testEnv n testConfig_sel)
qed

lemma WriteFile_testEnv:
  "WriteFile (testEnv failing resp) path data w =
     (None, record_event (Wrote path data) (w\<lparr>files := (files w)(path \<mapsto> data)\<rparr>))"
  by (simp add: WriteFile_def testEnv_def)

lemma marshal_testEnv: "marshalIndent (testEnv failing resp) h = Inr (showRecords h)"
  by (simp add: testEnv_def)

lemma setOutput_testEnv:
  "setOutput (testEnv failing resp) (testConfig req) name val w =
     (None, record_event (Appended ''out'' (name @ ''='' @ val @ [newline]))
              (w\<lparr>files := (files w)(''out'' \<mapsto>
                   (case files w ''out'' of None \<Rightarrow> [] | Some old \<Rightarrow> old)
                   @ name @ ''='' @ val @ [newline])\<rparr>))"
  by (simp add: setOutput_def testEnv_def testConfig_sel)

lemmas run_testEnv =
  main_def parse_testFlags setup_testEnv fetch_testEnv prepare_testEnv
  processPRs_Cons processPRs_Nil processSinglePR_def runGit_testEnv createMergeRecord_def
  sha_testEnv args_pr10 args_pr11 updateRefHistory_def WriteFile_testEnv marshal_testEnv
  pushChanges_def setOutput_testEnv testConfig_sel Fatal_def refHistoryFile_def
  filterPRs_eq_filter hasAnyLabel_def parseLabels_def

section \<open>The whole run\<close>

subsection \<open>Only setOutput appends to a file\<close>

lemma appended_runGit:
  "runGitCommand env args w = (r, w1) \<Longrightarrow> appended (trace w1) = appended (trace w)"
  using runGitCommand_world [of env args w]
  by (simp add: trace_record_event appended_append)

lemma appended_setupLoop:
  "setupLoop env entries w = (r, w1) \<Longrightarrow> appended (trace w1) = appended (trace w)"
proof (induction entries arbitrary: w)
  case Nil
  then show ?case by simp
next
  case (Cons kv rest)
  obtain key val where kv: "kv = (key, val)" by (cases kv)
  obtain r0 w0 where g: "runGitCommand env [''config'', ''--global'', key, val] w = (r0, w0)"
    by (cases "runGitCommand env [''config'', ''--global'', key, val] w")
  have a: "appended (trace w0) = appended (trace w)" using appended_runGit [OF g] .
  show ?case
  proof (cases r0)
    case None
    then show ?thesis using Cons.prems Cons.IH [of w0] kv g a by simp
  next
    case (Some err)
    then show ?thesis using Cons.prems kv g a by simp
  qed
qed

lemma appended_setupGitConfig:
  "setupGitConfig env w = (r, w1) \<Longrightarrow> appended (trace w1) = appended (trace w)"
  unfolding setupGitConfig_def by (rule appended_setupLoop)

lemma appended_fetchQualifiedPRs:
  "fetchQualifiedPRs env cfg w = (r, w1) \<Longrightarrow> appended (trace w1) = appended (trace w)"
  by (auto simp: fetchQualifiedPRs_def trace_record_event appended_append
      split: http_result.splits if_splits sum.splits)

lemma appended_createTargetBranch:
  "createTargetBranch env cfg w = (r, w1) \<Longrightarrow> appended (trace w1) = appended (trace w)"
  by (auto simp: createTargetBranch_def split: prod.splits option.splits dest: appended_runGit)

lemma appended_prepareTargetBranch:
  "prepareTargetBranch env cfg w = (r, w1) \<Longrightarrow> appended (trace w1) = appended (trace w)"
  by (auto simp: prepareTargetBranch_def branchExists_def
      split: prod.splits option.splits bool.splits
      dest!: appended_runGit appended_createTargetBranch)

lemma appended_processSinglePR:
  "processSinglePR env pr w = (r, w1) \<Longrightarrow> appended (trace w1) = appended (trace w)"
  by (auto simp: processSinglePR_def split: prod.splits option.splits dest!: appended_runGit)

lemma appended_createMergeRecord:
  "createMergeRecord env pr w = (r, w1) \<Longrightarrow> appended (trace w1) = appended (trace w)"
  by (auto simp: createMergeRecord_def getLatestCommitSHA_def trace_record_event appended_append
      split: prod.splits cmd_result.splits)

lemma appended_processPRs:
  "appended (trace (snd (processPRs env prs w))) = appended (trace w)"
proof (induction prs arbitrary: w)
  case Nil
  then show ?case by (simp add: processPRs_Nil)
next
  case (Cons pr rest)
  show ?case
  proof (cases "processSinglePR env pr w")
    case (Pair r w1)
    have a: "appended (trace w1) = appended (trace w)" using appended_processSinglePR [OF Pair] .
    show ?thesis
    proof (cases r)
      case None
      obtain rec w2 where c: "createMergeRecord env pr w1 = (rec, w2)"
        by (cases "createMergeRecord env pr w1")
      have "appended (trace w2) = appended (trace w1)" using appended_createMergeRecord [OF c] .
      then show ?thesis using Pair None c a Cons.IH [of w2] by (simp add: processPRs_Cons)
    next
      case (Some err)
      then show ?thesis
        using Pair a
          Cons.IH [of "record_event (Logged (''PR #'' @ showInt (Number pr) @ '' failed: '' @ err)) w1"]
        by (simp add: processPRs_Cons trace_record_event appended_append)
    qed
  qed
qed

lemma appended_WriteFile:
  "WriteFile env path data w = (r, w1) \<Longrightarrow> appended (trace w1) = appended (trace w)"
  by (auto simp: WriteFile_def trace_record_event appended_append
      split: option.splits io_error.splits)

lemma appended_updateRefHistory:
  "updateRefHistory env merges w = (r, w1) \<Longrightarrow> appended (trace w1) = appended (trace w)"
  by (auto simp: updateRefHistory_def split: sum.splits prod.splits option.splits
      dest!: appended_runGit appended_WriteFile)

lemma appended_pushChanges:
  "pushChanges env cfg w = (r, w1) \<Longrightarrow> appended (trace w1) = appended (trace w)"
  unfolding pushChanges_def by (rule appended_runGit)

lemma appended_Fatal: "appended (trace (snd (Fatal msg w))) = appended (trace w)"
  by (simp add: Fatal_def trace_record_event appended_append)

lemma appended_setOutput:
  "appended (trace (snd (setOutput env cfg name val w))) =
     appended (trace w) @
       (if fst (setOutput env cfg name val w) = None
        then [(GitHubOutput cfg, name @ ''='' @ val @ [newline])] else [])"
  by (simp add: setOutput_def trace_record_event appended_append
      split: option.splits io_error.splits)

lemma setOutput_sink_ok:
  "openFileErr env w (GitHubOutput cfg) = None \<Longrightarrow>
   fprintfErr env w (GitHubOutput cfg) (name @ ''='' @ val @ [newline]) = None \<Longrightarrow>
   fst (setOutput env cfg name val w) = None"
  by (simp add: setOutput_def)

subsection \<open>When main returns\<close>

lemma main_exit_status: "fst (main env fl w) = 0 \<or> fst (main env fl w) = 1"
  by (simp add: main_def Fatal_def split: sum.splits prod.splits option.splits)

lemma main_returns_iff:
  "fst (main env fl w) = 0 \<longleftrightarrow>
     (\<exists>cfg w1 prs w2 w3.
        parseConfig fl = Inr cfg
        \<and> setupGitConfig env w = (None, w1)
        \<and> fetchQualifiedPRs env cfg w1 = (Inr prs, w2)
        \<and> prepareTargetBranch env cfg w2 = (None, w3)
        \<and> fst (updateRefHistory env (fst (processPRs env prs w3))
                 (snd (processPRs env prs w3))) = None)"
  by (auto simp: main_def Fatal_def split: sum.splits prod.splits option.splits)

lemma main_world:
  assumes "parseConfig fl = Inr cfg"
    and "setupGitConfig env w = (None, w1)"
    and "fetchQualifiedPRs env cfg w1 = (Inr prs, w2)"
    and "prepareTargetBranch env cfg w2 = (None, w3)"
    and "updateRefHistory env (fst (processPRs env prs w3)) (snd (processPRs env prs w3)) = (r, w5)"
  shows "snd (main env fl w) =
     (case r of
        Some err \<Rightarrow> snd (Fatal (''error updating history:'' @ err) w5)
      | None \<Rightarrow> snd (setOutput env cfg ''target_branch'' (TargetBranch cfg)
                       (snd (pushChanges env cfg w5))))"
proof -
  obtain recs w4 where p: "processPRs env prs w3 = (recs, w4)"
    by (cases "processPRs env prs w3")
  obtain pe w6 where q: "pushChanges env cfg w5 = (pe, w6)"
    by (cases "pushChanges env cfg w5")
  obtain oe w7 where o: "setOutput env cfg ''target_branch'' (TargetBranch cfg) w6 = (oe, w7)"
    by (cases "setOutput env cfg ''target_branch'' (TargetBranch cfg) w6")
  show ?thesis
    using assms p q o by (cases r) (simp_all add: main_def)
qed

lemma main_fatal_appends_nothing:
  assumes "fst (main env fl w) \<noteq> 0"
  shows "appended (trace (snd (main env fl w))) = appended (trace w)"
proof (cases "parseConfig fl")
  case (Inl err)
  then show ?thesis by (simp add: main_def appended_Fatal)
next
  case (Inr cfg)
  obtain r1 w1 where s1: "setupGitConfig env w = (r1, w1)"
    by (cases "setupGitConfig env w")
  have a1: "appended (trace w1) = appended (trace w)"
    using appended_setupGitConfig [OF s1] .
  show ?thesis
  proof (cases r1)
    case (Some err)
    then show ?thesis using Inr s1 a1 by (simp add: main_def appended_Fatal)
  next
    case n1: None
    obtain r2 w2 where s2: "fetchQualifiedPRs env cfg w1 = (r2, w2)"
      by (cases "fetchQualifiedPRs env cfg w1")
    have a2: "appended (trace w2) = appended (trace w)"
      using appended_fetchQualifiedPRs [OF s2] a1 by simp
    show ?thesis
    proof (cases r2)
      case (Inl err)
      then show ?thesis using Inr s1 n1 s2 a2 by (simp add: main_def appended_Fatal)
    next
      case prs: (Inr prs)
      obtain r3 w3 where s3: "prepareTargetBranch env cfg w2 = (r3, w3)"
        by (cases "prepareTargetBranch env cfg w2")
      have a3: "appended (trace w3) = appended (trace w)"
        using appended_prepareTargetBranch [OF s3] a2 by simp
      show ?thesis
      proof (cases r3)
        case (Some msg)
        then show ?thesis using Inr s1 n1 s2 prs s3 a3 by (simp add: main_def appended_Fatal)
      next
        case n3: None
        obtain recs w4 where s4: "processPRs env prs w3 = (recs, w4)"
          by (cases "processPRs env prs w3")
        have a4: "appended (trace w4) = appended (trace w)"
          using appended_processPRs [of env prs w3] s4 a3 by simp
        obtain r5 w5 where s5: "updateRefHistory env recs w4 = (r5, w5)"
          by (cases "updateRefHistory env recs w4")
        have a5: "appended (trace w5) = appended (trace w)"
          using appended_updateRefHistory [OF s5] a4 by simp
        show ?thesis
        proof (cases r5)
          case (Some err)
          then show ?thesis
            using Inr s1 n1 s2 prs s3 n3 s4 s5 a5 by (simp add: main_def appended_Fatal)
        next
          case None
          then have "fst (main env fl w) = 0"
            using Inr s1 n1 s2 prs s3 n3 s4 s5
            by (simp add: main_def split: prod.splits)
          then show ?thesis using assms by simp
        qed
      qed
    qed
  qed
qed

lemma main_returns_appends:
  assumes "fst (main env fl w) = 0"
  shows "\<exists>cfg w6. parseConfig fl = Inr cfg
     \<and> appended (trace (snd (main env fl w))) =
         appended (trace w) @
           (if fst (setOutput env cfg ''target_branch'' (TargetBranch cfg) w6) = None
            then [(GitHubOutput cfg, ''target_branch='' @ TargetBranch cfg @ [newline])] else [])"
proof -
  obtain cfg w1 prs w2 w3 where c: "parseConfig fl = Inr cfg"
    and s1: "setupGitConfig env w = (None, w1)"
    and s2: "fetchQualifiedPRs env cfg w1 = (Inr prs, w2)"
    and s3: "prepareTargetBranch env cfg w2 = (None, w3)"
    and s5: "fst (updateRefHistory env (fst (processPRs env prs w3))
                 (snd (processPRs env prs w3))) = None"
    using assms main_returns_iff [of env fl w] by blast
  define w4 where "w4 = snd (processPRs env prs w3)"
  define w5 where "w5 = snd (updateRefHistory env (fst (processPRs env prs w3)) w4)"
  define w6 where "w6 = snd (pushChanges env cfg w5)"
  have u: "updateRefHistory env (fst (processPRs env prs w3)) (snd (processPRs env prs w3)) = (None, w5)"
    using s5 by (simp add: w5_def w4_def prod_eq_iff)
  have m: "snd (main env fl w) = snd (setOutput env cfg ''target_branch'' (TargetBranch cfg) w6)"
    using main_world [OF c s1 s2 s3 u] by (simp add: w6_def)
  have a4: "appended (trace w4) = appended (trace w)"
    using appended_setupGitConfig [OF s1] appended_fetchQualifiedPRs [OF s2]
      appended_prepareTargetBranch [OF s3] appended_processPRs [of env prs w3]
    by (simp add: w4_def)
  have a5: "appended (trace w5) = appended (trace w4)"
    using appended_updateRefHistory [OF u] by (simp add: w4_def)
  have a6: "appended (trace w6) = appended (trace w5)"
    using appended_pushChanges [of env cfg w5 "fst (pushChanges env cfg w5)" w6]
    by (simp add: w6_def)
  show ?thesis
    using c m a4 a5 a6 appended_setOutput [of env cfg "''target_branch''" "TargetBranch cfg" w6]
    by (intro exI [of _ cfg] exI [of _ w6]) simp
qed

lemma main_returns_when_push_succeeds:
  assumes "parseConfig fl = Inr cfg"
    and "setupGitConfig env w = (None, w1)"
    and "fetchQualifiedPRs env cfg w1 = (Inr prs, w2)"
    and "prepareTargetBranch env cfg w2 = (None, w3)"
    and "updateRefHistory env (fst (processPRs env prs w3)) (snd (processPRs env prs w3)) = (None, w5)"
    and "fst (pushChanges env cfg w5) = None"
  shows "fst (main env fl w) = 0"
  using assms main_returns_iff [of env fl w] by auto

text \<open>
  C6 (as amended): \<open>target_branch\<close> is written in the runs in which \<open>main\<close> returns,
  and in no other. A run ends with exit status 0 or 1. When it ends with 0, the
  configuration was valid and the git setup, the pull request query, the branch reset
  and the history update all succeeded; and a run in which these and the push succeed
  ends with 0, whatever happens to the candidates. A run that ends with 1 (any fatal
  error, the history update after the pipeline included) appends nothing to any file.
  A run that ends with 0 appends the line \<open>target_branch=\<close> and the target branch's
  name to the output file, provided the file can be opened and written.
\<close>

theorem output_written_when_main_returns:
  "(fst (main env fl w) = 0 \<or> fst (main env fl w) = 1)
   \<and> (fst (main env fl w) = 0 \<longrightarrow>
        (\<exists>cfg w1 prs w2 w3.
           parseConfig fl = Inr cfg
           \<and> setupGitConfig env w = (None, w1)
           \<and> fetchQualifiedPRs env cfg w1 = (Inr prs, w2)
           \<and> prepareTargetBranch env cfg w2 = (None, w3)
           \<and> fst (updateRefHistory env (fst (processPRs env prs w3))
                    (snd (processPRs env prs w3))) = None))
   \<and> (parseConfig fl = Inr cfg0 \<longrightarrow>
        setupGitConfig env w = (None, v1) \<longrightarrow>
        fetchQualifiedPRs env cfg0 v1 = (Inr prs0, v2) \<longrightarrow>
        prepareTargetBranch env cfg0 v2 = (None, v3) \<longrightarrow>
        updateRefHistory env (fst (processPRs env prs0 v3)) (snd (processPRs env prs0 v3))
          = (None, v5) \<longrightarrow>
        fst (pushChanges env cfg0 v5) = None \<longrightarrow>
        fst (main env fl w) = 0)
   \<and> (fst (main env fl w) \<noteq> 0 \<longrightarrow>
        appended (trace (snd (main env fl w))) = appended (trace w))
   \<and> (fst (main env fl w) = 0 \<longrightarrow>
        (\<exists>cfg. parseConfig fl = Inr cfg
           \<and> ((\<forall>w'. openFileErr env w' (GitHubOutput cfg) = None
                  \<and> fprintfErr env w' (GitHubOutput cfg)
                       (''target_branch='' @ TargetBranch cfg @ [newline]) = None) \<longrightarrow>
               appended (trace (snd (main env fl w))) =
                 appended (trace w)
                 @ [(GitHubOutput cfg, ''target_branch='' @ TargetBranch cfg @ [newline])])))"
proof -
  have ok: "\<exists>cfg. parseConfig fl = Inr cfg
           \<and> ((\<forall>w'. openFileErr env w' (GitHubOutput cfg) = None
                  \<and> fprintfErr env w' (GitHubOutput cfg)
                       (''target_branch='' @ TargetBranch cfg @ [newline]) = None) \<longrightarrow>
               appended (trace (snd (main env fl w))) =
                 appended (trace w)
                 @ [(GitHubOutput cfg, ''target_branch='' @ TargetBranch cfg @ [newline])])"
    if r: "fst (main env fl w) = 0"
  proof -
    obtain cfg w6 where c: "parseConfig fl = Inr cfg"
      and a: "appended (trace (snd (main env fl w))) =
         appended (trace w) @
           (if fst (setOutput env cfg ''target_branch'' (TargetBranch cfg) w6) = None
            then [(GitHubOutput cfg, ''target_branch='' @ TargetBranch cfg @ [newline])] else [])"
      using main_returns_appends [OF r] by blast
    have "fst (setOutput env cfg ''target_branch'' (TargetBranch cfg) w6) = None"
      if "\<forall>w'. openFileErr env w' (GitHubOutput cfg) = None
                  \<and> fprintfErr env w' (GitHubOutput cfg)
                       (''target_branch='' @ TargetBranch cfg @ [newline]) = None"
      using that setOutput_sink_ok [of env w6 cfg "''target_branch''" "TargetBranch cfg"] by simp
    then show ?thesis using c a by auto
  qed
  have only_if: "\<exists>cfg w1 prs w2 w3.
           parseConfig fl = Inr cfg
           \<and> setupGitConfig env w = (None, w1)
           \<and> fetchQualifiedPRs env cfg w1 = (Inr prs, w2)
           \<and> prepareTargetBranch env cfg w2 = (None, w3)
           \<and> fst (updateRefHistory env (fst (processPRs env prs w3))
                    (snd (processPRs env prs w3))) = None"
    if "fst (main env fl w) = 0"
    using that main_returns_iff [of env fl w] by blast
  show ?thesis
    using main_exit_status [of env fl w] only_if
      main_returns_when_push_succeeds [of fl cfg0 env w v1 prs0 v2 v3 v5]
      main_fatal_appends_nothing [of env fl w] ok
    by blast
qed

theorem output_written_when_main_returns_witness:
  "fst (main (testEnv [[''merge'', ''--squash'', ''pr-10'']] [raw10, raw11]) (testFlags []) w0) = 0
   \<and> (\<exists>cfg w1 prs w2 w3.
         parseConfig (testFlags []) = Inr cfg
         \<and> setupGitConfig (testEnv [[''merge'', ''--squash'', ''pr-10'']] [raw10, raw11]) w0 = (None, w1)
         \<and> fetchQualifiedPRs (testEnv [[''merge'', ''--squash'', ''pr-10'']] [raw10, raw11]) cfg w1
             = (Inr prs, w2)
         \<and> prepareTargetBranch (testEnv [[''merge'', ''--squash'', ''pr-10'']] [raw10, raw11]) cfg w2
             = (None, w3)
         \<and> fst (updateRefHistory (testEnv [[''merge'', ''--squash'', ''pr-10'']] [raw10, raw11])
                  (fst (processPRs (testEnv [[''merge'', ''--squash'', ''pr-10'']] [raw10, raw11]) prs w3))
                  (snd (processPRs (testEnv [[''merge'', ''--squash'', ''pr-10'']] [raw10, raw11]) prs w3)))
             = None)
   \<and> (\<forall>w'. fst (pushChanges (testEnv [[''merge'', ''--squash'', ''pr-10'']] [raw10, raw11])
                    (testConfig []) w') = None)
   \<and> (\<forall>w'. openFileErr (testEnv [[''merge'', ''--squash'', ''pr-10'']] [raw10, raw11]) w' ''out'' = None
            \<and> fprintfErr (testEnv [[''merge'', ''--squash'', ''pr-10'']] [raw10, raw11]) w' ''out''
                 (''target_branch='' @ ''pre-main'' @ [newline]) = None)
   \<and> appended (trace (snd (main (testEnv [[''merge'', ''--squash'', ''pr-10'']] [raw10, raw11])
                              (testFlags []) w0))) =
       [(''out'', ''target_branch='' @ ''pre-main'' @ [newline])]
   \<and> fst (main (testEnv [] [raw10, raw11]) ((testFlags [])\<lparr>flag_github_token := None\<rparr>) w0) \<noteq> 0
   \<and> appended (trace (snd (main (testEnv [] [raw10, raw11])
                              ((testFlags [])\<lparr>flag_github_token := None\<rparr>) w0))) = []"
proof -
  let ?E = "testEnv [[''merge'', ''--squash'', ''pr-10'']] [raw10, raw11]"
  let ?bad = "(testFlags [])\<lparr>flag_github_token := None\<rparr>"
  have r: "fst (main ?E (testFlags []) w0) = 0"
    by (simp add: run_testEnv pr10_def [symmetric] pr11_def [symmetric])
  have st: "\<exists>cfg w1 prs w2 w3.
         parseConfig (testFlags []) = Inr cfg
         \<and> setupGitConfig ?E w0 = (None, w1)
         \<and> fetchQualifiedPRs ?E cfg w1 = (Inr prs, w2)
         \<and> prepareTargetBranch ?E cfg w2 = (None, w3)
         \<and> fst (updateRefHistory ?E (fst (processPRs ?E prs w3)) (snd (processPRs ?E prs w3))) = None"
    using r output_written_when_main_returns [of ?E "testFlags []" w0] by blast
  have p: "\<forall>w'. fst (pushChanges ?E (testConfig []) w') = None"
    by (simp add: pushChanges_def runGit_testEnv testConfig_sel)
  have s: "\<forall>w'. openFileErr ?E w' ''out'' = None
            \<and> fprintfErr ?E w' ''out'' (''target_branch='' @ ''pre-main'' @ [newline]) = None"
    by (simp add: testEnv_def)
  have c: "parseConfig (testFlags []) = Inr (testConfig [])"
    by (simp add: parse_testFlags parseLabels_def)
  have a: "appended (trace (snd (main ?E (testFlags []) w0))) =
       appended (trace w0) @ [(''out'', ''target_branch='' @ ''pre-main'' @ [newline])]"
    using r s c output_written_when_main_returns [of ?E "testFlags []" w0]
    by (auto simp: testConfig_sel)
  have f: "fst (main (testEnv [] [raw10, raw11]) ?bad w0) \<noteq> 0"
    by (simp add: main_def parseConfig_def testFlags_def StringVar_def Let_def Fatal_def)
  have b: "appended (trace (snd (main (testEnv [] [raw10, raw11]) ?bad w0))) = appended (trace w0)"
    using f output_written_when_main_returns [of "testEnv [] [raw10, raw11]" ?bad w0]
    by blast
  show ?thesis using r st p s a f b by (simp add: w0_def)
qed

text \<open>
  The claim as stated fails: a run that reaches the pipeline and integrates both
  candidates, and whose commit of the history file then fails, ends with exit status 1
  and writes nothing to the output file.
\<close>

theorem output_not_written_counterexample:
  "fst (main (testEnv [[''commit'', ''-m'', ''chore: update ref-history'']] [raw10, raw11])
          (testFlags []) w0) = 1
   \<and> gitRuns (trace (snd (main (testEnv [[''commit'', ''-m'', ''chore: update ref-history'']]
                                  [raw10, raw11]) (testFlags []) w0))) =
       [([''config'', ''--global'', ''safe.directory'', ''/github/workspace''], True),
        ([''config'', ''--global'', ''user.name'', ''github-actions[bot]''], True),
        ([''config'', ''--global'', ''user.email'',
          ''41898282+github-actions[bot]@users.noreply.github.com''], True),
        ([''config'', ''--global'', ''advice.addIgnoredFile'', ''false''], True),
        ([''checkout'', ''main''], True),
        ([''show-ref'', ''--verify'', ''refs/heads/pre-main''], True),
        ([''branch'', ''-D'', ''pre-main''], True),
        ([''checkout'', ''-B'', ''pre-main''], True),
        ([''fetch'', ''origin'', ''pull/10/head:pr-10''], True),
        ([''merge'', ''--squash'', ''pr-10''], True),
        ([''commit'', ''-m'', ''Add feature''], True),
        ([''rev-parse'', ''HEAD''], True),
        ([''fetch'', ''origin'', ''pull/11/head:pr-11''], True),
        ([''merge'', ''--squash'', ''pr-11''], True),
        ([''commit'', ''-m'', ''Fix bug''], True),
        ([''rev-parse'', ''HEAD''], True),
        ([''add'', ''.ref-history''], True),
        ([''commit'', ''-m'', ''chore: update ref-history''], False)]
   \<and> appended (trace (snd (main (testEnv [[''commit'', ''-m'', ''chore: update ref-history'']]
                                   [raw10, raw11]) (testFlags []) w0))) = []
   \<and> files (snd (main (testEnv [[''commit'', ''-m'', ''chore: update ref-history'']]
                          [raw10, raw11]) (testFlags []) w0)) ''out'' = None"
  by (simp add: run_testEnv pr10_def [symmetric] pr11_def [symmetric] trace_record_event
      files_record_event w0_def)

text \<open>
  C2: a failed push is meant to be fatal, but \<open>main\<close> does not look at the error
  \<open>pushChanges\<close> returns. In the run below every step succeeds except the push: the
  push is the last git command and fails, nothing is logged, and the exit status is 0.
\<close>

theorem push_failure_exits_zero:
  "fst (pushChanges (testEnv [[''push'', ''origin'', ''pre-main'', ''--force'']] [raw10, raw11])
          (testConfig []) w0) \<noteq> None
   \<and> fst (main (testEnv [[''push'', ''origin'', ''pre-main'', ''--force'']] [raw10, raw11])
            (testFlags []) w0) = 0
   \<and> last (gitRuns (trace (snd (main (testEnv [[''push'', ''origin'', ''pre-main'', ''--force'']]
                                        [raw10, raw11]) (testFlags []) w0)))) =
       ([''push'', ''origin'', ''pre-main'', ''--force''], False)
   \<and> [e \<leftarrow> trace (snd (main (testEnv [[''push'', ''origin'', ''pre-main'', ''--force'']]
                                  [raw10, raw11]) (testFlags []) w0)). \<exists>m. e = Logged m] = []"
  by (simp add: run_testEnv pr10_def [symmetric] pr11_def [symmetric] trace_record_event
      files_record_event w0_def)

section \<open>The history file\<close>

subsection \<open>Only updateRefHistory writes a file whole\<close>














subsection \<open>What updateRefHistory does\<close>






subsection \<open>The files a run writes\<close>






end
